theory Spec2Isabelle
  imports Complex_Main
begin

section \<open>Receiver-function wrapper pyrf96: a shallow embedding\<close>

text \<open>
  The development follows \<^verbatim>\<open>src/pyrf96/_pyrf96.py\<close> and the misfit expression of
  \<^verbatim>\<open>examples/RFcalcdemo.py\<close>. Conventions of the embedding:
  \<^item> a numpy float (32 or 64 bit) is a \<^typ>\<open>real\<close>: rounding, \<open>nan\<close> and \<open>inf\<close> are not
    represented, so every statement below is about exact arithmetic on finite values;
  \<^item> a one-dimensional array is a list, a two-dimensional array is its shape together
    with its entries;
  \<^item> a raised Python exception is a value \<open>Inl e\<close> of the result type;
  \<^item> routines that are not Python code of the package (the native library \<open>librf96\<close>,
    \<open>np.linalg.svd\<close>, \<open>np.random.multivariate_normal\<close>) are parameters of the
    functions that call them.
\<close>

subsection \<open>Exceptions\<close>

datatype error =
    KeyError
  | IndexError
  | ValueError
  | TypeError
  | UnboundLocalError
  | ZeroDivisionError
  | LinAlgError

subsection \<open>Noise kernels\<close>

text \<open>
  \<^verbatim>\<open>
  def sqExp(x,xp,s1,rho):
      return (s1**2) * np.exp(-(x-xp)**2/(2.*rho**2))
  def matern0(x,xp,s1,rho):
      return (s1**2)*np.exp(-np.abs(x-xp)/rho)
  def matern1(x,xp,s1,rho):
      return (s1**2)*(1.+np.sqrt(3)*abs(x-xp)/rho)*np.exp(-np.sqrt(3)*abs(x-xp)/rho)
  def matern2(x,xp,s1,rho):
      return (s1**2)*(1.+np.sqrt(5)*abs(x-xp)/rho+5.*(x-xp)**2/(3.*rho**2))*np.exp(-np.sqrt(5)*abs(x-xp)/rho)
  def periodic(x,xp,s1,rho,period):
      return (s1**2) *np.exp(-(2*np.sin(abs(x-xp)*np.pi/period)**2)/rho**2)
  \<close>
  Python's \<open>**\<close> binds tighter than unary minus, and \<open>*\<close> and \<open>/\<close> associate to the
  left; the brackets below are the ones Python's grammar gives.
\<close>

definition sqExp :: "real \<Rightarrow> real \<Rightarrow> real \<Rightarrow> real \<Rightarrow> real" where
  "sqExp x xp s1 rho = (s1\<^sup>2) * exp ((- ((x - xp)\<^sup>2)) / (2 * rho\<^sup>2))"

definition matern0 :: "real \<Rightarrow> real \<Rightarrow> real \<Rightarrow> real \<Rightarrow> real" where
  "matern0 x xp s1 rho = (s1\<^sup>2) * exp ((- \<bar>x - xp\<bar>) / rho)"

definition matern1 :: "real \<Rightarrow> real \<Rightarrow> real \<Rightarrow> real \<Rightarrow> real" where
  "matern1 x xp s1 rho =
     (s1\<^sup>2) * (1 + sqrt 3 * \<bar>x - xp\<bar> / rho) * exp ((- sqrt 3) * \<bar>x - xp\<bar> / rho)"

definition matern2 :: "real \<Rightarrow> real \<Rightarrow> real \<Rightarrow> real \<Rightarrow> real" where
  "matern2 x xp s1 rho =
     (s1\<^sup>2) * (1 + sqrt 5 * \<bar>x - xp\<bar> / rho + 5 * (x - xp)\<^sup>2 / (3 * rho\<^sup>2))
       * exp ((- sqrt 5) * \<bar>x - xp\<bar> / rho)"

definition periodic :: "real \<Rightarrow> real \<Rightarrow> real \<Rightarrow> real \<Rightarrow> real \<Rightarrow> real" where
  "periodic x xp s1 rho period =
     (s1\<^sup>2) * exp ((- (2 * (sin (\<bar>x - xp\<bar> * pi / period))\<^sup>2)) / rho\<^sup>2)"

subsection \<open>Arrays\<close>

text \<open>
  A two-dimensional array: its shape and its entries. \<open>mk_matrix\<close> fixes the entries
  outside the shape to 0, so that two arrays of the same shape with the same entries
  are equal.
\<close>

record matrix =
  nrows :: nat
  ncols :: nat
  entry :: "nat \<Rightarrow> nat \<Rightarrow> real"

definition mk_matrix :: "nat \<Rightarrow> nat \<Rightarrow> (nat \<Rightarrow> nat \<Rightarrow> real) \<Rightarrow> matrix" where
  "mk_matrix r c f =
     \<lparr>nrows = r, ncols = c, entry = (\<lambda>i j. if i < r \<and> j < c then f i j else 0)\<rparr>"

definition np_zeros :: "nat \<Rightarrow> real list" where
  "np_zeros n = replicate n 0"

definition np_ones :: "nat \<Rightarrow> real list" where
  "np_ones n = replicate n 1"

text \<open>\<open>np.linspace(a, b, n)\<close>: \<open>n\<close> evenly spaced points from \<open>a\<close> to \<open>b\<close>.\<close>

definition np_linspace :: "real \<Rightarrow> real \<Rightarrow> nat \<Rightarrow> real list" where
  "np_linspace a b n =
     (if n = 1 then [a]
      else map (\<lambda>i. a + real i * ((b - a) / real (n - 1))) [0..<n])"

text \<open>\<open>np.cumsum\<close>: the running sums of a one-dimensional array.\<close>

fun cumsum_from :: "real \<Rightarrow> real list \<Rightarrow> real list" where
  "cumsum_from acc [] = []"
| "cumsum_from acc (x # xs) = (acc + x) # cumsum_from (acc + x) xs"

definition np_cumsum :: "real list \<Rightarrow> real list" where
  "np_cumsum xs = cumsum_from 0 xs"

text \<open>
  \<open>w += z\<close> on one-dimensional arrays: elementwise when the lengths agree, a single
  value \<open>z\<close> is broadcast, any other pair of shapes is a \<open>ValueError\<close>.
\<close>

definition np_iadd :: "real list \<Rightarrow> real list \<Rightarrow> error + real list" where
  "np_iadd w z =
     (if length z = length w then Inr (map2 (+) w z)
      else if length z = 1 then Inr (map (\<lambda>x. x + hd z) w)
      else Inl ValueError)"

text \<open>\<open>a - b\<close> on one-dimensional arrays, with numpy's broadcasting of a single value.\<close>

definition np_sub :: "real list \<Rightarrow> real list \<Rightarrow> error + real list" where
  "np_sub a b =
     (if length a = length b then Inr (map2 (-) a b)
      else if length b = 1 then Inr (map (\<lambda>x. x - hd b) a)
      else if length a = 1 then Inr (map (\<lambda>y. hd a - y) b)
      else Inl ValueError)"

text \<open>\<open>np.dot\<close> for matrix times matrix, matrix times vector and vector times vector.\<close>

definition np_dot :: "matrix \<Rightarrow> matrix \<Rightarrow> error + matrix" where
  "np_dot A B =
     (if ncols A \<noteq> nrows B then Inl ValueError
      else Inr (mk_matrix (nrows A) (ncols B)
                  (\<lambda>i j. \<Sum>k<ncols A. entry A i k * entry B k j)))"

definition np_dot_mv :: "matrix \<Rightarrow> real list \<Rightarrow> error + real list" where
  "np_dot_mv A v =
     (if ncols A \<noteq> length v then Inl ValueError
      else Inr (map (\<lambda>i. \<Sum>k<ncols A. entry A i k * v ! k) [0..<nrows A]))"

definition np_dot_vv :: "real list \<Rightarrow> real list \<Rightarrow> error + real" where
  "np_dot_vv a b =
     (if length a \<noteq> length b then Inl ValueError
      else Inr (\<Sum>k<length a. a ! k * b ! k))"

text \<open>\<open>A.T\<close>, \<open>A[:, :p]\<close>, \<open>A[:p, :]\<close>, \<open>np.diag(d)\<close> and \<open>A / c\<close>.\<close>

definition transpose_m :: "matrix \<Rightarrow> matrix" where
  "transpose_m A = mk_matrix (ncols A) (nrows A) (\<lambda>i j. entry A j i)"

definition cols_upto :: "nat \<Rightarrow> matrix \<Rightarrow> matrix" where
  "cols_upto p A = mk_matrix (nrows A) (min p (ncols A)) (entry A)"

definition rows_upto :: "nat \<Rightarrow> matrix \<Rightarrow> matrix" where
  "rows_upto p A = mk_matrix (min p (nrows A)) (ncols A) (entry A)"

definition np_diag :: "real list \<Rightarrow> matrix" where
  "np_diag d = mk_matrix (length d) (length d) (\<lambda>i j. if i = j then d ! i else 0)"

definition div_scalar :: "matrix \<Rightarrow> real \<Rightarrow> matrix" where
  "div_scalar A c = mk_matrix (nrows A) (ncols A) (\<lambda>i j. entry A i j / c)"

text \<open>
  Indexing with a list of integers, \<open>A[ind, :]\<close> and \<open>A[:, ind]\<close>: an index \<open>i\<close> with
  \<open>-n \<le> i < 0\<close> counts from the end, an index outside \<open>[-n, n)\<close> is an \<open>IndexError\<close>.
\<close>

definition norm_index :: "nat \<Rightarrow> int \<Rightarrow> error + nat" where
  "norm_index n i =
     (if 0 \<le> i \<and> i < int n then Inr (nat i)
      else if - int n \<le> i \<and> i < 0 then Inr (nat (int n + i))
      else Inl IndexError)"

fun norm_indices :: "nat \<Rightarrow> int list \<Rightarrow> error + nat list" where
  "norm_indices n [] = Inr []"
| "norm_indices n (i # is) =
     (case norm_index n i of
        Inl e \<Rightarrow> Inl e
      | Inr j \<Rightarrow> (case norm_indices n is of Inl e \<Rightarrow> Inl e | Inr js \<Rightarrow> Inr (j # js)))"

definition take_rows :: "matrix \<Rightarrow> int list \<Rightarrow> error + matrix" where
  "take_rows A ind =
     (case norm_indices (nrows A) ind of
        Inl e \<Rightarrow> Inl e
      | Inr js \<Rightarrow> Inr (mk_matrix (length js) (ncols A) (\<lambda>i j. entry A (js ! i) j)))"

definition take_cols :: "matrix \<Rightarrow> int list \<Rightarrow> error + matrix" where
  "take_cols A ind =
     (case norm_indices (ncols A) ind of
        Inl e \<Rightarrow> Inl e
      | Inr js \<Rightarrow> Inr (mk_matrix (nrows A) (length js) (\<lambda>i j. entry A i (js ! j))))"

text \<open>
  Assignment to the slice \<open>xs[start::2]\<close>. The slice has \<open>(length xs - start + 1) div 2\<close>
  places; the value list must fill them exactly, or hold a single value that is
  broadcast; anything else is a \<open>ValueError\<close>.
\<close>

definition slice2_len :: "nat \<Rightarrow> nat \<Rightarrow> nat" where
  "slice2_len n start = (n - start + 1) div 2"

definition set_slice2 :: "real list \<Rightarrow> nat \<Rightarrow> real list \<Rightarrow> error + real list" where
  "set_slice2 xs start vals =
     (if length vals = slice2_len (length xs) start then
        Inr (map (\<lambda>j. if start \<le> j \<and> even (j - start) then vals ! ((j - start) div 2)
                       else xs ! j) [0..<length xs])
      else if length vals = 1 then
        Inr (map (\<lambda>j. if start \<le> j \<and> even (j - start) then vals ! 0 else xs ! j)
               [0..<length xs])
      else Inl ValueError)"

subsection \<open>Time-domain noise\<close>

text \<open>
  The noise dictionary, with the keys the package reads or documents. A key that is
  absent is \<open>None\<close>; reading it raises \<open>KeyError\<close>.
\<close>

record noise_dict =
  kernel :: "string option"
  amp_sigma :: "real option"
  corr_time :: "real option"
  period :: "real option"

text \<open>
  Arrays are mutable objects. Where a function updates an array in place, the arrays
  live in a store, from references to contents, and the function takes and returns
  references.
\<close>

type_synonym ref = nat
type_synonym store = "ref \<Rightarrow> real list"

text \<open>
  \<open>np.random.multivariate_normal(mean, cov)\<close> draws from the ambient generator; a
  sampler is that call with the generator state fixed: from the mean and the covariance
  to the sample drawn, or to the exception raised.
\<close>

type_synonym sampler = "real list \<Rightarrow> matrix \<Rightarrow> error + real list"

text \<open>
  The kernel chosen by the chain of comparisons in \<open>add_time_domain_noise\<close>. The four
  first names bind \<open>k\<close> to a function of two points. The name \<open>periodic\<close> binds \<open>k\<close> to
  \<^verbatim>\<open>lambda x,xp:periodic(x,xp,amp_sigma,corr_time)\<close>, a call of the five-parameter
  function \<open>periodic\<close> with four arguments: every call of this \<open>k\<close> raises \<open>TypeError\<close>.
  Any other name leaves \<open>k\<close> unbound (the chain has no \<open>else\<close>): every use of \<open>k\<close>
  raises \<open>UnboundLocalError\<close>.
\<close>

definition choose_kernel :: "string \<Rightarrow> real \<Rightarrow> real \<Rightarrow> error + (real \<Rightarrow> real \<Rightarrow> real)" where
  "choose_kernel name a r =
     (if name = ''sqExp'' then Inr (\<lambda>x xp. sqExp x xp a r)
      else if name = ''matern0'' then Inr (\<lambda>x xp. matern0 x xp a r)
      else if name = ''matern1'' then Inr (\<lambda>x xp. matern1 x xp a r)
      else if name = ''matern2'' then Inr (\<lambda>x xp. matern2 x xp a r)
      else if name = ''periodic'' then Inl TypeError
      else Inl UnboundLocalError)"

text \<open>
  The double loop that fills \<open>K\<close>. It calls \<open>k\<close> first at \<open>i = 0\<close>, \<open>j = 0\<close>, so a \<open>k\<close>
  that raises does so exactly when \<open>nt \<ge> 1\<close>; for \<open>nt = 0\<close> the loop body never runs.
\<close>

definition fill_K :: "error + (real \<Rightarrow> real \<Rightarrow> real) \<Rightarrow> real list \<Rightarrow> nat \<Rightarrow> error + matrix" where
  "fill_K k xx nt =
     (if nt = 0 then Inr (mk_matrix 0 0 (\<lambda>i j. 0))
      else (case k of
              Inl e \<Rightarrow> Inl e
            | Inr f \<Rightarrow> Inr (mk_matrix nt nt (\<lambda>i j. f (xx ! i) (xx ! j)))))"

text \<open>
  \<^verbatim>\<open>
  def add_time_domain_noise(w,t,noise):
      amp_sigma = noise['amp_sigma']
      corr_time = noise['corr_time']
      if(noise['kernel'] == 'sqExp'):
          k = lambda x,xp:sqExp(x,xp,amp_sigma,corr_time)
      elif(noise['kernel'] == 'matern0'):
          k = lambda x,xp:matern0(x,xp,amp_sigma,corr_time)
      elif(noise['kernel'] == 'matern1'):
          k = lambda x,xp:matern1(x,xp,amp_sigma,corr_time)
      elif(noise['kernel'] == 'matern2'):
          k = lambda x,xp:matern2(x,xp,amp_sigma,corr_time)
      elif(noise['kernel'] == 'periodic'):
          k = lambda x,xp:periodic(x,xp,amp_sigma,corr_time)
      nt = len(w)
      xx = np.linspace(t[0],t[-1],nt)
      K = np.zeros([nt,nt])
      for i in range(nt):
          for j in range(nt):
              K[i,j] = k(xx[i],xx[j])
      w+= np.random.multivariate_normal(np.zeros(nt),K)
      return w,K
  \<close>
  \<open>w\<close> and \<open>t\<close> are references; the result is the new store, the reference returned
  for the waveform, and \<open>K\<close>.
\<close>

definition add_time_domain_noise ::
  "sampler \<Rightarrow> store \<Rightarrow> ref \<Rightarrow> ref \<Rightarrow> noise_dict \<Rightarrow> error + (store \<times> ref \<times> matrix)" where
  "add_time_domain_noise smp st w t nd =
     (case amp_sigma nd of None \<Rightarrow> Inl KeyError | Some a \<Rightarrow>
      case corr_time nd of None \<Rightarrow> Inl KeyError | Some r \<Rightarrow>
      case kernel nd of None \<Rightarrow> Inl KeyError | Some name \<Rightarrow>
      let k = choose_kernel name a r;
          nt = length (st w)
      in if st t = [] then Inl IndexError
         else
           let xx = np_linspace (hd (st t)) (last (st t)) nt
           in case fill_K k xx nt of Inl e \<Rightarrow> Inl e | Inr K \<Rightarrow>
              case smp (np_zeros nt) K of Inl e \<Rightarrow> Inl e | Inr z \<Rightarrow>
              case np_iadd (st w) z of Inl e \<Rightarrow> Inl e | Inr w' \<Rightarrow>
              Inr (st(w := w'), w, K))"

subsection \<open>The forward-solver adapter\<close>

text \<open>
  The native library. Each routine receives its arguments by reference and fills the
  output buffers that the caller allocated; a routine is modelled by the value it leaves
  at each index of each output buffer. A layered model of shape \<open>(npts, 3)\<close> is a list of
  triples.
\<close>

type_synonym layers = "(real \<times> real \<times> real) list"

record fortran_call =
  model_c :: layers
  mtype_c :: int
  fs_c :: real
  gauss_ac :: real
  water_cc :: real
  angle_c :: real
  time_shift_c :: real
  ndatar_c :: nat
  v60_c :: real
  npt_c :: nat
  qa_c :: "real list"
  qb_c :: "real list"

record librf96 =
  rfcalc_nonoise :: "fortran_call \<Rightarrow> (nat \<Rightarrow> real) \<times> (nat \<Rightarrow> real)"
  rfcalc_noise :: "fortran_call \<Rightarrow> real \<Rightarrow> int \<Rightarrow> (nat \<Rightarrow> real) \<times> (nat \<Rightarrow> real)"
  voro2mod :: "layers \<Rightarrow> nat \<Rightarrow> (nat \<Rightarrow> real) \<times> (nat \<Rightarrow> real) \<times> (nat \<Rightarrow> real)"

text \<open>An attenuation entry of \<open>qmodels\<close>: a scalar (\<open>np.isscalar\<close>) or an array.\<close>

datatype qmodel = QScalar real | QArray "real list"

text \<open>The keyword arguments of \<open>rfcalc\<close> and their defaults.\<close>

record rf_args =
  sn :: real
  mtype :: int
  fs :: real
  gauss_a :: real
  water_c :: real
  angle :: real
  time_shift :: real
  ndatar :: nat
  v60 :: real
  seed :: int
  noise :: "noise_dict option"
  qmodels :: "qmodel \<times> qmodel"

definition rf_defaults :: rf_args where
  "rf_defaults =
     \<lparr>sn = 0, mtype = 0, fs = 25, gauss_a = 5 / 2, water_c = 1 / 10000, angle = 35,
      time_shift = 5, ndatar = 626, v60 = 8043 / 1000, seed = 1, noise = None,
      qmodels = (QScalar 1450, QScalar 600)\<rparr>"

text \<open>What \<open>rfcalc\<close> returns: the pair \<open>(time, wdata)\<close> or the triple \<open>(time, wdata, Cd)\<close>.\<close>

datatype rf_result =
    RFPair "real list" "real list"
  | RFTriple "real list" "real list" matrix

text \<open>
  \<^verbatim>\<open>
  if(np.isscalar(qmodels[0])):
      qa = qmodels[0]*np.ones(npt)
  else:
      qa = qmodels[0]
  \<close>
\<close>

definition per_layer :: "qmodel \<Rightarrow> nat \<Rightarrow> real list" where
  "per_layer q npt =
     (case q of QScalar c \<Rightarrow> map (\<lambda>one. c * one) (np_ones npt) | QArray a \<Rightarrow> a)"

text \<open>The arguments marshalled for the native call.\<close>

definition marshal :: "layers \<Rightarrow> rf_args \<Rightarrow> fortran_call" where
  "marshal model args =
     (let npt = length model
      in \<lparr>model_c = model, mtype_c = mtype args, fs_c = fs args, gauss_ac = gauss_a args,
          water_cc = water_c args, angle_c = angle args, time_shift_c = time_shift args,
          ndatar_c = ndatar args, v60_c = v60 args, npt_c = npt,
          qa_c = per_layer (fst (qmodels args)) npt,
          qb_c = per_layer (snd (qmodels args)) npt\<rparr>)"

text \<open>
  \<open>rfcalc\<close>: the buffers \<open>time_f\<close> and \<open>wdata_f\<close> are allocated with \<open>ndatar\<close> entries
  and filled by the native routine chosen by \<open>sn == 0.0\<close>. With a noise dictionary,
  \<^verbatim>\<open>wdata_f, Cd = add_time_domain_noise(wdata_f,time_f,noise)\<close> runs on the two
  buffers and the triple \<open>(time_f, wdata_f, Cd)\<close> is returned; without, the pair.
\<close>

definition time_f_ref :: ref where
  "time_f_ref = 0"

definition wdata_f_ref :: ref where
  "wdata_f_ref = 1"

text \<open>
  \<^verbatim>\<open>
  if sn == 0.0:
      librf96.rfcalc_nonoise(model_c, ..., qa_c, qb_c, time_c, wdata_c)
  else:
      librf96.rfcalc_noise(model_c, mtype_c, sn_c, ..., seed_c, npt_c, qa_c, qb_c, time_c, wdata_c)
  \<close>
\<close>

definition native_call :: "librf96 \<Rightarrow> layers \<Rightarrow> rf_args \<Rightarrow> (nat \<Rightarrow> real) \<times> (nat \<Rightarrow> real)" where
  "native_call lib model args =
     (if sn args = 0 then rfcalc_nonoise lib (marshal model args)
      else rfcalc_noise lib (marshal model args) (sn args) (seed args))"

definition rfcalc :: "librf96 \<Rightarrow> sampler \<Rightarrow> layers \<Rightarrow> rf_args \<Rightarrow> error + rf_result" where
  "rfcalc lib smp model args =
     (let out = native_call lib model args;
          time_f = map (fst out) [0..<ndatar args];
          wdata_f = map (snd out) [0..<ndatar args]
      in case noise args of
           Some nd \<Rightarrow>
             (let st = ((\<lambda>r. []) (time_f_ref := time_f, wdata_f_ref := wdata_f))
              in case add_time_domain_noise smp st wdata_f_ref time_f_ref nd of
                   Inl e \<Rightarrow> Inl e
                 | Inr (st', wdata_f', Cd) \<Rightarrow> Inr (RFTriple (st' time_f_ref) (st' wdata_f') Cd))
         | None \<Rightarrow> Inr (RFPair time_f wdata_f))"

subsection \<open>Model formats\<close>

text \<open>
  \<^verbatim>\<open>
  def l2mod(model, vmin=2.4, vmax=4.7, dmin=0.0, dmax=60.0):
      px = np.zeros([2 * len(model)])
      py = np.zeros([2 * len(model)])
      py[1::2], py[2::2], px[0::2], px[1::2] = (
          list(np.cumsum(model.T[0])),
          list(np.cumsum(model.T[0]))[:-1],
          model.T[1],
          model.T[1],
      )
      py[-1] = dmax
      return px, py
  \<close>
  The four slices are assigned from left to right; \<open>py[-1]\<close> on an empty array is an
  \<open>IndexError\<close>. \<open>d2mod\<close> is the same text with \<open>model.T[0]\<close> in place of its running
  sums. \<open>vmin\<close>, \<open>vmax\<close> and \<open>dmin\<close> are not used.
\<close>

definition l2mod :: "layers \<Rightarrow> real \<Rightarrow> error + (real list \<times> real list)" where
  "l2mod model dmax =
     (let px = np_zeros (2 * length model);
          py = np_zeros (2 * length model)
      in case set_slice2 py 1 (np_cumsum (map fst model)) of Inl e \<Rightarrow> Inl e | Inr py1 \<Rightarrow>
         case set_slice2 py1 2 (butlast (np_cumsum (map fst model))) of Inl e \<Rightarrow> Inl e | Inr py2 \<Rightarrow>
         case set_slice2 px 0 (map (fst \<circ> snd) model) of Inl e \<Rightarrow> Inl e | Inr px1 \<Rightarrow>
         case set_slice2 px1 1 (map (fst \<circ> snd) model) of Inl e \<Rightarrow> Inl e | Inr px2 \<Rightarrow>
         if py2 = [] then Inl IndexError
         else Inr (px2, py2[length py2 - 1 := dmax]))"

definition d2mod :: "layers \<Rightarrow> real \<Rightarrow> error + (real list \<times> real list)" where
  "d2mod model dmax =
     (let px = np_zeros (2 * length model);
          py = np_zeros (2 * length model)
      in case set_slice2 py 1 (map fst model) of Inl e \<Rightarrow> Inl e | Inr py1 \<Rightarrow>
         case set_slice2 py1 2 (butlast (map fst model)) of Inl e \<Rightarrow> Inl e | Inr py2 \<Rightarrow>
         case set_slice2 px 0 (map (fst \<circ> snd) model) of Inl e \<Rightarrow> Inl e | Inr px1 \<Rightarrow>
         case set_slice2 px1 1 (map (fst \<circ> snd) model) of Inl e \<Rightarrow> Inl e | Inr px2 \<Rightarrow>
         if py2 = [] then Inl IndexError
         else Inr (px2, py2[length py2 - 1 := dmax]))"

text \<open>
  \<open>v2mod\<close> lets the native \<open>voro2mod\<close> fill the buffers \<open>h_f\<close>, \<open>beta_f\<close> and \<open>vpvs_f\<close>
  (each of \<open>npt\<close> entries) and builds the plot pair from \<open>h_f\<close> and \<open>beta_f\<close> as \<open>l2mod\<close>
  does from the first two columns; it returns
  \<^verbatim>\<open>np.cumsum(h_f), beta_f, vpvs_f, px, py\<close>.
\<close>

definition v2mod ::
  "librf96 \<Rightarrow> layers \<Rightarrow> real
     \<Rightarrow> error + (real list \<times> real list \<times> real list \<times> real list \<times> real list)" where
  "v2mod lib model dmax =
     (let npt = length model;
          out = voro2mod lib model npt;
          h_f = map (fst out) [0..<npt];
          beta_f = map (fst (snd out)) [0..<npt];
          vpvs_f = map (snd (snd out)) [0..<npt];
          px = np_zeros (2 * length model);
          py = np_zeros (2 * length model)
      in case set_slice2 py 1 (np_cumsum h_f) of Inl e \<Rightarrow> Inl e | Inr py1 \<Rightarrow>
         case set_slice2 py1 2 (butlast (np_cumsum h_f)) of Inl e \<Rightarrow> Inl e | Inr py2 \<Rightarrow>
         case set_slice2 px 0 beta_f of Inl e \<Rightarrow> Inl e | Inr px1 \<Rightarrow>
         case set_slice2 px1 1 beta_f of Inl e \<Rightarrow> Inl e | Inr px2 \<Rightarrow>
         if py2 = [] then Inl IndexError
         else Inr (np_cumsum h_f, beta_f, vpvs_f, px2, py2[length py2 - 1 := dmax]))"

subsection \<open>Data covariance and its truncated inverse\<close>

text \<open>
  \<^verbatim>\<open>
  for k1 in range(ndata):
      for k2 in range(ndata):
          Cd[k1][k2] = np.exp(-0.5 * (k1 - k2) ** 2 / sigsq)
  \<close>
  \<open>k1\<close> and \<open>k2\<close> are Python integers and \<open>sigsq\<close> is a Python float, so the division
  is Python's: it raises \<open>ZeroDivisionError\<close> for \<open>sigsq = 0\<close>, at the first entry.
\<close>

definition Cd_entry :: "real \<Rightarrow> nat \<Rightarrow> nat \<Rightarrow> real" where
  "Cd_entry sigsq k1 k2 = exp ((- (1 / 2)) * (real_of_int (int k1 - int k2))\<^sup>2 / sigsq)"

definition fill_Cd :: "real \<Rightarrow> nat \<Rightarrow> error + matrix" where
  "fill_Cd sigsq ndata =
     (if ndata \<noteq> 0 \<and> sigsq = 0 then Inl ZeroDivisionError
      else Inr (mk_matrix ndata ndata (Cd_entry sigsq)))"

text \<open>
  \<open>np.linalg.svd(A)\<close> returns \<open>U, s, V\<close> (or raises \<open>LinAlgError\<close>); it is a parameter.
\<close>

type_synonym svd = "matrix \<Rightarrow> error + (matrix \<times> real list \<times> matrix)"

text \<open>The threshold \<open>0.000001\<close> of both truncation rules.\<close>

definition cutoff :: real where
  "cutoff = 1 / 1000000"

text \<open>
  \<^verbatim>\<open>pmax = [n for n, a in enumerate(s) if a < 0.000001][0]\<close> in \<open>InvDataCov\<close>, and
  \<^verbatim>\<open>pmax = [n for n, a in enumerate(s) if a > 0.000001][-1] + 1\<close> in \<open>InvDataCovSub\<close>.
  Indexing an empty list raises \<open>IndexError\<close>.
\<close>

definition pmax_first_below :: "real list \<Rightarrow> error + nat" where
  "pmax_first_below s =
     (case [n. (n, a) \<leftarrow> enumerate 0 s, a < cutoff] of
        [] \<Rightarrow> Inl IndexError
      | n # ns \<Rightarrow> Inr n)"

definition pmax_last_above :: "real list \<Rightarrow> error + nat" where
  "pmax_last_above s =
     (case [n. (n, a) \<leftarrow> enumerate 0 s, a > cutoff] of
        [] \<Rightarrow> Inl IndexError
      | n # ns \<Rightarrow> Inr (last (n # ns) + 1))"

text \<open>
  The last three lines, the same in both functions:
  \<^verbatim>\<open>
  Sinv = np.diag(1.0 / s[:pmax])
  Cdinv = np.dot(V.T[:, :pmax], np.dot(Sinv, U.T[:pmax, :]))
  return Cdinv / Arsq
  \<close>
\<close>

definition truncated_inverse ::
  "matrix \<Rightarrow> real list \<Rightarrow> matrix \<Rightarrow> nat \<Rightarrow> real \<Rightarrow> error + matrix" where
  "truncated_inverse U s V pmax Arsq =
     (let Sinv = np_diag (map (\<lambda>a. 1 / a) (take pmax s))
      in case np_dot Sinv (rows_upto pmax (transpose_m U)) of Inl e \<Rightarrow> Inl e | Inr B \<Rightarrow>
         case np_dot (cols_upto pmax (transpose_m V)) B of Inl e \<Rightarrow> Inl e | Inr Cdinv \<Rightarrow>
         Inr (div_scalar Cdinv Arsq))"

definition InvDataCov :: "svd \<Rightarrow> real \<Rightarrow> real \<Rightarrow> nat \<Rightarrow> error + matrix" where
  "InvDataCov svd_f width Ar ndata =
     (let sigsq = width\<^sup>2;
          Arsq = Ar * Ar
      in case fill_Cd sigsq ndata of Inl e \<Rightarrow> Inl e | Inr Cd \<Rightarrow>
         case svd_f Cd of Inl e \<Rightarrow> Inl e | Inr (U, s, V) \<Rightarrow>
         case pmax_first_below s of Inl e \<Rightarrow> Inl e | Inr pmax \<Rightarrow>
         truncated_inverse U s V pmax Arsq)"

definition InvDataCovSub :: "svd \<Rightarrow> real \<Rightarrow> real \<Rightarrow> nat \<Rightarrow> int list \<Rightarrow> error + matrix" where
  "InvDataCovSub svd_f width Ar ndata ind =
     (let sigsq = width\<^sup>2;
          Arsq = Ar * Ar
      in case fill_Cd sigsq ndata of Inl e \<Rightarrow> Inl e | Inr Cd \<Rightarrow>
         case take_rows Cd ind of Inl e \<Rightarrow> Inl e | Inr Cdrows \<Rightarrow>
         case take_cols Cdrows ind of Inl e \<Rightarrow> Inl e | Inr Cdused \<Rightarrow>
         case svd_f Cdused of Inl e \<Rightarrow> Inl e | Inr (U, s, V) \<Rightarrow>
         case pmax_last_above s of Inl e \<Rightarrow> Inl e | Inr pmax \<Rightarrow>
         truncated_inverse U s V pmax Arsq)"

text \<open>
  What \<open>np.linalg.svd\<close> promises for a square matrix \<open>A\<close>: factors \<open>U\<close> and \<open>V\<close> with
  orthonormal columns and rows, singular values \<open>s\<close> that are non-negative and in
  descending order, and \<open>A = U diag(s) V\<close>.
\<close>

definition is_svd :: "matrix \<Rightarrow> matrix \<Rightarrow> real list \<Rightarrow> matrix \<Rightarrow> bool" where
  "is_svd A U s V \<longleftrightarrow>
     (let n = nrows A
      in ncols A = n \<and> nrows U = n \<and> ncols U = n \<and> nrows V = n \<and> ncols V = n
         \<and> length s = n
         \<and> (\<forall>k<n. 0 \<le> s ! k)
         \<and> (\<forall>k<n - 1. s ! (k + 1) \<le> s ! k)
         \<and> (\<forall>i<n. \<forall>j<n. (\<Sum>k<n. entry U k i * entry U k j) = (if i = j then 1 else 0))
         \<and> (\<forall>i<n. \<forall>j<n. (\<Sum>k<n. entry V i k * entry V j k) = (if i = j then 1 else 0))
         \<and> (\<forall>i<n. \<forall>j<n. entry A i j = (\<Sum>k<n. entry U i k * s ! k * entry V k j)))"

subsection \<open>Misfit\<close>

text \<open>
  The misfit of the demonstration script:
  \<^verbatim>\<open>
  res = RFo - RFp
  mref = np.dot(res, np.transpose(np.dot(Cdinv, res))) / 2.0
  \<close>
  \<open>np.transpose\<close> of a one-dimensional array is the array itself.
\<close>

definition mref :: "real list \<Rightarrow> real list \<Rightarrow> matrix \<Rightarrow> error + real" where
  "mref RFo RFp Cdinv =
     (case np_sub RFo RFp of Inl e \<Rightarrow> Inl e | Inr res \<Rightarrow>
      case np_dot_mv Cdinv res of Inl e \<Rightarrow> Inl e | Inr v \<Rightarrow>
      case np_dot_vv res v of Inl e \<Rightarrow> Inl e | Inr d \<Rightarrow>
      Inr (d / 2))"

subsection \<open>Reference models\<close>

text \<open>
  The 13-layer reference model of the demonstration script, in layer-thickness format
  (\<open>vtype == 1\<close>) and in interface-depth format (\<open>vtype == 2\<close>).
\<close>

definition velmod_thickness :: layers where
  "velmod_thickness =
     [(20, 346 / 100, 173 / 100), (15, 385 / 100, 173 / 100),
      (85 / 2, 4485 / 1000, 173 / 100), (85 / 2, 4495 / 1000, 173 / 100),
      (45, 45045 / 10000, 173 / 100), (45, 45145 / 10000, 173 / 100),
      (50, 4566 / 1000, 173 / 100), (50, 46525 / 10000, 173 / 100),
      (50, 47395 / 10000, 173 / 100), (50, 48265 / 10000, 173 / 100),
      (50, 5133 / 1000, 173 / 100), (50, 5239 / 1000, 173 / 100),
      (0, 5345 / 1000, 173 / 100)]"

definition velmod_depth :: layers where
  "velmod_depth =
     [(20, 346 / 100, 173 / 100), (35, 385 / 100, 173 / 100),
      (155 / 2, 4485 / 1000, 173 / 100), (120, 4495 / 1000, 173 / 100),
      (165, 45045 / 10000, 173 / 100), (210, 45145 / 10000, 173 / 100),
      (260, 4566 / 1000, 173 / 100), (310, 46525 / 10000, 173 / 100),
      (360, 47395 / 10000, 173 / 100), (410, 48265 / 10000, 173 / 100),
      (460, 5133 / 1000, 173 / 100), (510, 5239 / 1000, 173 / 100),
      (510, 5345 / 1000, 173 / 100)]"

subsection \<open>The native library as the specification describes it\<close>

text \<open>
  Modelled from the spec: the time axis written by the native routines \<open>rfcalc_nonoise\<close>
  and \<open>rfcalc_noise\<close>, whose Fortran source is not part of the Python sources. The
  specification describes the waveform as uniformly sampled at \<open>1/fs\<close> spacing, starting
  conceptually at 0 with the configured \<open>time_shift\<close>, the time before the first P pulse:
  sample \<open>i\<close> is at time \<open>i/fs - time_shift\<close>, so that \<open>ndatar\<close> samples span
  \<open>[- time_shift, (ndatar - 1)/fs - time_shift]\<close>.
\<close>

definition spec_time_axis :: "real \<Rightarrow> real \<Rightarrow> nat \<Rightarrow> real" where
  "spec_time_axis rate shift i = real i / rate - shift"

text \<open>
  Modelled from the spec: a native library that writes that time axis, from the sampling
  rate and the time shift it is called with. The amplitudes written by the two solver
  routines and the layering routine \<open>voro2mod\<close> stay parameters.
\<close>

definition spec_librf96 ::
  "(fortran_call \<Rightarrow> nat \<Rightarrow> real) \<Rightarrow> (fortran_call \<Rightarrow> real \<Rightarrow> int \<Rightarrow> nat \<Rightarrow> real)
     \<Rightarrow> (layers \<Rightarrow> nat \<Rightarrow> (nat \<Rightarrow> real) \<times> (nat \<Rightarrow> real) \<times> (nat \<Rightarrow> real)) \<Rightarrow> librf96" where
  "spec_librf96 amp namp v2m =
     \<lparr>rfcalc_nonoise = (\<lambda>c. (spec_time_axis (fs_c c) (time_shift_c c), amp c)),
      rfcalc_noise = (\<lambda>c s sd. (spec_time_axis (fs_c c) (time_shift_c c), namp c s sd)),
      voro2mod = v2m\<rparr>"

subsection \<open>Stand-ins for the external routines\<close>

text \<open>
  Concrete values for the parameters, used to run the definitions on examples: a
  layering routine that writes the columns of a given layered model, a library that
  writes the sample numbers over the sampling rate as times and zero amplitudes, the
  library of the specification with zero amplitudes, a sampler that returns the mean
  shifted by a constant, and a decomposition routine that returns a fixed triple.
\<close>

definition columns_voro2mod ::
  "layers \<Rightarrow> layers \<Rightarrow> nat \<Rightarrow> (nat \<Rightarrow> real) \<times> (nat \<Rightarrow> real) \<times> (nat \<Rightarrow> real)" where
  "columns_voro2mod ml model npt =
     ((\<lambda>i. fst (ml ! i)), (\<lambda>i. fst (snd (ml ! i))), (\<lambda>i. snd (snd (ml ! i))))"

definition quiet_lib :: "layers \<Rightarrow> librf96" where
  "quiet_lib ml =
     \<lparr>rfcalc_nonoise = (\<lambda>c. ((\<lambda>i. real i / fs_c c), (\<lambda>i. 0))),
      rfcalc_noise = (\<lambda>c s sd. ((\<lambda>i. real i / fs_c c), (\<lambda>i. 0))),
      voro2mod = columns_voro2mod ml\<rparr>"

definition spec_quiet_lib :: librf96 where
  "spec_quiet_lib = spec_librf96 (\<lambda>c i. 0) (\<lambda>c s sd i. 0) (columns_voro2mod [])"

definition shift_sampler :: "real \<Rightarrow> sampler" where
  "shift_sampler c mean K = Inr (map (\<lambda>m. m + c) mean)"

definition fixed_svd :: "matrix \<Rightarrow> real list \<Rightarrow> matrix \<Rightarrow> svd" where
  "fixed_svd U s V A = Inr (U, s, V)"

definition identity_m :: "nat \<Rightarrow> matrix" where
  "identity_m n = mk_matrix n n (\<lambda>i j. if i = j then 1 else 0)"

definition two_layers :: layers where
  "two_layers = [(10, 3, 17 / 10), (0, 4, 17 / 10)]"

text \<open>A store with a time axis and a waveform of two samples, and a noise dictionary.\<close>

definition demo_store :: store where
  "demo_store = (\<lambda>r. []) (time_f_ref := [0, 1], wdata_f_ref := [5, 7])"

text \<open>A store with that time axis and an empty waveform, and the array of shape (0, 0).\<close>

definition empty_wave_store :: store where
  "empty_wave_store = (\<lambda>r. []) (time_f_ref := [0, 1])"

definition empty_matrix :: matrix where
  "empty_matrix = mk_matrix 0 0 (\<lambda>i j. 0)"

definition demo_noise :: "string \<Rightarrow> noise_dict" where
  "demo_noise name =
     \<lparr>kernel = Some name, amp_sigma = Some 1, corr_time = Some 1, period = None\<rparr>"

section \<open>Properties\<close>

subsection \<open>Kernels\<close>

lemma abs_diff_swap: "\<bar>x - xp\<bar> = \<bar>xp - (x::real)\<bar>"
  by (rule abs_minus_commute)

lemma sq_diff_swap: "(x - xp)\<^sup>2 = (xp - (x::real))\<^sup>2"
  by (rule power2_commute)

text \<open>
  Claim C4. Each of the five kernels \<open>sqExp\<close>, \<open>matern0\<close>, \<open>matern1\<close>, \<open>matern2\<close> and
  \<open>periodic\<close> is symmetric in its two points, and at zero lag it equals the variance
  \<open>s1\<^sup>2\<close>. Valid parameters are a non-zero correlation time (and a non-zero period);
  symmetry needs no condition at all.
\<close>

theorem kernels_symmetric_and_variance_at_zero_lag:
  "sqExp x xp s1 rho = sqExp xp x s1 rho
   \<and> matern0 x xp s1 rho = matern0 xp x s1 rho
   \<and> matern1 x xp s1 rho = matern1 xp x s1 rho
   \<and> matern2 x xp s1 rho = matern2 xp x s1 rho
   \<and> periodic x xp s1 rho per = periodic xp x s1 rho per
   \<and> (rho \<noteq> 0 \<longrightarrow>
        sqExp x x s1 rho = s1\<^sup>2 \<and> matern0 x x s1 rho = s1\<^sup>2
        \<and> matern1 x x s1 rho = s1\<^sup>2 \<and> matern2 x x s1 rho = s1\<^sup>2
        \<and> (per \<noteq> 0 \<longrightarrow> periodic x x s1 rho per = s1\<^sup>2))"
proof -
  have sym: "sqExp x xp s1 rho = sqExp xp x s1 rho"
    "matern0 x xp s1 rho = matern0 xp x s1 rho"
    "matern1 x xp s1 rho = matern1 xp x s1 rho"
    "matern2 x xp s1 rho = matern2 xp x s1 rho"
    "periodic x xp s1 rho per = periodic xp x s1 rho per"
    unfolding sqExp_def matern0_def matern1_def matern2_def periodic_def
    by (simp_all only: abs_diff_swap [of x xp] sq_diff_swap [of x xp])
  have zero: "sqExp x x s1 rho = s1\<^sup>2" "matern0 x x s1 rho = s1\<^sup>2"
    "matern1 x x s1 rho = s1\<^sup>2" "matern2 x x s1 rho = s1\<^sup>2"
    "periodic x x s1 rho per = s1\<^sup>2"
    by (simp_all add: sqExp_def matern0_def matern1_def matern2_def periodic_def)
  from sym zero show ?thesis by blast
qed

theorem kernels_symmetric_and_variance_at_zero_lag_witness:
  "sqExp 1 3 2 5 = sqExp 3 1 2 5
   \<and> matern0 1 3 2 5 = matern0 3 1 2 5
   \<and> matern1 1 3 2 5 = matern1 3 1 2 5
   \<and> matern2 1 3 2 5 = matern2 3 1 2 5
   \<and> periodic 1 3 2 5 7 = periodic 3 1 2 5 7
   \<and> (5::real) \<noteq> 0 \<and> (7::real) \<noteq> 0
   \<and> sqExp 1 1 2 5 = 4 \<and> matern0 1 1 2 5 = 4
   \<and> matern1 1 1 2 5 = 4 \<and> matern2 1 1 2 5 = 4
   \<and> periodic 1 1 2 5 7 = 4"
  using kernels_symmetric_and_variance_at_zero_lag [of 1 3 2 5 7]
        kernels_symmetric_and_variance_at_zero_lag [of 1 1 2 5 7]
  by simp

subsection \<open>Misfit\<close>

lemma np_sub_same_length:
  "length a = length b \<Longrightarrow> np_sub a b = Inr (map (\<lambda>k. a ! k - b ! k) [0..<length a])"
proof -
  assume len: "length a = length b"
  have "map2 (-) a b = map (\<lambda>k. a ! k - b ! k) [0..<length a]"
    by (rule nth_equalityI) (simp_all add: len)
  then show ?thesis by (simp add: np_sub_def len)
qed

lemma mref_formula:
  assumes "length RFo = n" "length RFp = n" "nrows Cdinv = n" "ncols Cdinv = n"
  shows "mref RFo RFp Cdinv =
           Inr ((\<Sum>i<n. \<Sum>j<n. (RFo ! i - RFp ! i) * entry Cdinv i j * (RFo ! j - RFp ! j)) / 2)"
proof -
  let ?res = "map (\<lambda>k. RFo ! k - RFp ! k) [0..<n]"
  let ?v = "map (\<lambda>i. \<Sum>k<n. entry Cdinv i k * ?res ! k) [0..<n]"
  have res: "np_sub RFo RFp = Inr ?res"
    using assms by (simp add: np_sub_same_length)
  have v: "np_dot_mv Cdinv ?res = Inr ?v"
    using assms by (simp add: np_dot_mv_def)
  have "(\<Sum>k<n. ?res ! k * ?v ! k) =
          (\<Sum>i<n. \<Sum>j<n. (RFo ! i - RFp ! i) * entry Cdinv i j * (RFo ! j - RFp ! j))"
    by (rule sum.cong) (simp_all add: sum_distrib_left mult.assoc)
  then have d: "np_dot_vv ?res ?v =
          Inr (\<Sum>i<n. \<Sum>j<n. (RFo ! i - RFp ! i) * entry Cdinv i j * (RFo ! j - RFp ! j))"
    by (simp add: np_dot_vv_def)
  show ?thesis
    by (simp only: mref_def res v d sum.case)
qed

lemma mref_self_zero_if_returns: "mref x x C = Inr m \<Longrightarrow> m = 0"
  by (auto simp: mref_def np_sub_def np_dot_mv_def np_dot_vv_def split: if_splits)

text \<open>
  Claim C3. For waveforms \<open>RFo\<close> and \<open>RFp\<close> of \<open>n\<close> samples and an \<open>n\<close> by \<open>n\<close> matrix
  \<open>Cdinv\<close>, the misfit is half the quadratic form of the residual \<open>RFo - RFp\<close>, and
  the misfit of a waveform against itself is 0. Whatever the shapes, a misfit of a
  waveform against itself, when one is returned, is 0.
\<close>

theorem misfit_is_half_quadratic_form_and_zero_on_equal_waveforms:
  "(length RFo = n \<and> length RFp = n \<and> nrows Cdinv = n \<and> ncols Cdinv = n \<longrightarrow>
      mref RFo RFp Cdinv =
        Inr ((\<Sum>i<n. \<Sum>j<n. (RFo ! i - RFp ! i) * entry Cdinv i j * (RFo ! j - RFp ! j)) / 2)
      \<and> mref RFo RFo Cdinv = Inr 0)
   \<and> (\<forall>m. mref RFo RFo Cdinv = Inr m \<longrightarrow> m = 0)"
  using mref_formula [of RFo n RFp Cdinv] mref_formula [of RFo n RFo Cdinv]
    mref_self_zero_if_returns [of RFo Cdinv]
  by auto

theorem misfit_is_half_quadratic_form_and_zero_on_equal_waveforms_witness:
  "length [1, 2 :: real] = 2 \<and> length [1 / 2, 3 :: real] = 2
   \<and> nrows (mk_matrix 2 2 (\<lambda>i j. if i = j then 2 else 1)) = 2
   \<and> ncols (mk_matrix 2 2 (\<lambda>i j. if i = j then 2 else 1)) = 2
   \<and> mref [1, 2] [1 / 2, 3] (mk_matrix 2 2 (\<lambda>i j. if i = j then 2 else 1)) = Inr (3 / 4)
   \<and> mref [1, 2] [1, 2] (mk_matrix 2 2 (\<lambda>i j. if i = j then 2 else 1)) = Inr 0"
  using misfit_is_half_quadratic_form_and_zero_on_equal_waveforms
          [of "[1, 2]" 2 "[1 / 2, 3]" "mk_matrix 2 2 (\<lambda>i j. if i = j then 2 else 1)"]
  by (simp add: mk_matrix_def lessThan_Suc numeral_2_eq_2)

subsection \<open>Model formats\<close>

lemma length_cumsum_from: "length (cumsum_from a xs) = length xs"
  by (induction xs arbitrary: a) simp_all

lemma length_np_cumsum: "length (np_cumsum xs) = length xs"
  by (simp add: np_cumsum_def length_cumsum_from)

lemma set_slice2_ok:
  "length vals = slice2_len (length xs) start \<Longrightarrow>
     \<exists>ys. set_slice2 xs start vals = Inr ys \<and> length ys = length xs"
  by (simp add: set_slice2_def)

lemma slice2_len_simps:
  "slice2_len (2 * L) 0 = L" "slice2_len (2 * L) 1 = L" "slice2_len (2 * L) (Suc 0) = L"
  "slice2_len (2 * L) 2 = L - 1"
  by (simp_all add: slice2_len_def)

lemma l2mod_eq_d2mod:
  assumes a1: "map fst md = np_cumsum (map fst ml)"
      and a2: "map (fst \<circ> snd) md = map (fst \<circ> snd) ml"
  shows "l2mod ml dmax = d2mod md dmax"
proof -
  have "length (map fst md) = length (np_cumsum (map fst ml))"
    by (simp only: a1)
  then have len: "length md = length ml"
    by (simp add: length_np_cumsum)
  show ?thesis
    unfolding l2mod_def d2mod_def a1 a2 len by (rule refl)
qed

lemma l2mod_returns:
  assumes "ml \<noteq> []"
  shows "\<exists>px py. l2mod ml dmax = Inr (px, py) \<and> length px = 2 * length ml
            \<and> length py = 2 * length ml"
proof -
  let ?L = "length ml"
  let ?c = "np_cumsum (map fst ml)"
  let ?v = "map (fst \<circ> snd) ml"
  obtain py1 where py1: "set_slice2 (np_zeros (2 * ?L)) 1 ?c = Inr py1" "length py1 = 2 * ?L"
    using set_slice2_ok [of ?c "np_zeros (2 * ?L)" 1]
    by (auto simp: slice2_len_simps length_np_cumsum np_zeros_def)
  obtain py2 where py2: "set_slice2 py1 2 (butlast ?c) = Inr py2" "length py2 = 2 * ?L"
    using set_slice2_ok [of "butlast ?c" py1 2] py1(2)
    by (auto simp: slice2_len_simps length_np_cumsum)
  obtain px1 where px1: "set_slice2 (np_zeros (2 * ?L)) 0 ?v = Inr px1" "length px1 = 2 * ?L"
    using set_slice2_ok [of ?v "np_zeros (2 * ?L)" 0]
    by (auto simp: slice2_len_simps np_zeros_def)
  obtain px2 where px2: "set_slice2 px1 1 ?v = Inr px2" "length px2 = 2 * ?L"
    using set_slice2_ok [of ?v px1 1] px1(2)
    by (auto simp: slice2_len_simps)
  have ne: "py2 \<noteq> []"
    using py2(2) assms by auto
  have "l2mod ml dmax = Inr (px2, py2[length py2 - 1 := dmax])"
    unfolding l2mod_def Let_def
    by (simp only: py1(1) py2(1) px1(1) px2(1) sum.case ne if_False)
  then show ?thesis
    using px2(2) py2(2) by simp
qed

lemma l2mod_empty: "l2mod [] dmax = Inl IndexError"
  by (simp add: l2mod_def set_slice2_def slice2_len_def np_zeros_def np_cumsum_def)

lemma v2mod_as_l2mod:
  assumes h: "map (fst (voro2mod lib mv (length mv))) [0..<length mv] = map fst ml"
      and b: "map (fst (snd (voro2mod lib mv (length mv)))) [0..<length mv] = map (fst \<circ> snd) ml"
  shows "v2mod lib mv dmax =
           (case l2mod ml dmax of
              Inl e \<Rightarrow> Inl e
            | Inr (px, py) \<Rightarrow>
                Inr (np_cumsum (map fst ml), map (fst \<circ> snd) ml,
                     map (snd (snd (voro2mod lib mv (length mv)))) [0..<length mv], px, py))"
proof -
  have "length (map (fst (voro2mod lib mv (length mv))) [0..<length mv]) = length (map fst ml)"
    by (simp only: h)
  then have len: "length mv = length ml"
    by simp
  show ?thesis
    unfolding v2mod_def l2mod_def Let_def h b
    unfolding len
    by (simp split: sum.splits)
qed

text \<open>
  Claim C5. Let a layer-thickness model \<open>ml\<close> and an interface-depth model \<open>md\<close> describe
  the same column: the depth column of \<open>md\<close> is the running sum of the thickness
  column of \<open>ml\<close>, and the velocity columns are equal. Then \<open>l2mod ml\<close> and \<open>d2mod md\<close>
  are the same result; for a model with at least one layer that result is a plot pair,
  each list twice as long as the model. If moreover the native layering routine turns a
  Voronoi model \<open>mv\<close> into the thicknesses and velocities of \<open>ml\<close>, then \<open>v2mod mv\<close>
  returns the depth column of \<open>md\<close> as its cumulative depths, and the same plot pair.
\<close>

theorem model_formats_of_one_column_give_one_plot:
  "map fst md = np_cumsum (map fst ml) \<and> map (fst \<circ> snd) md = map (fst \<circ> snd) ml \<longrightarrow>
     l2mod ml dmax = d2mod md dmax
     \<and> (ml \<noteq> [] \<longrightarrow>
          (\<exists>px py. l2mod ml dmax = Inr (px, py) \<and> d2mod md dmax = Inr (px, py)
             \<and> length px = 2 * length ml \<and> length py = 2 * length ml))
     \<and> (map (fst (voro2mod lib mv (length mv))) [0..<length mv] = map fst ml
          \<and> map (fst (snd (voro2mod lib mv (length mv)))) [0..<length mv]
              = map (fst \<circ> snd) ml \<longrightarrow>
          v2mod lib mv dmax =
            (case d2mod md dmax of
               Inl e \<Rightarrow> Inl e
             | Inr (px, py) \<Rightarrow>
                 Inr (map fst md, map (fst \<circ> snd) md,
                      map (snd (snd (voro2mod lib mv (length mv)))) [0..<length mv], px, py)))"
proof (intro impI conjI)
  assume a: "map fst md = np_cumsum (map fst ml) \<and> map (fst \<circ> snd) md = map (fst \<circ> snd) ml"
  then show eq: "l2mod ml dmax = d2mod md dmax"
    by (simp add: l2mod_eq_d2mod)
  {
    assume "ml \<noteq> []"
    then show "\<exists>px py. l2mod ml dmax = Inr (px, py) \<and> d2mod md dmax = Inr (px, py)
             \<and> length px = 2 * length ml \<and> length py = 2 * length ml"
      using l2mod_returns [of ml dmax] eq by auto
  }
  {
    assume "map (fst (voro2mod lib mv (length mv))) [0..<length mv] = map fst ml
          \<and> map (fst (snd (voro2mod lib mv (length mv)))) [0..<length mv]
              = map (fst \<circ> snd) ml"
    then have "v2mod lib mv dmax =
           (case l2mod ml dmax of
              Inl e \<Rightarrow> Inl e
            | Inr (px, py) \<Rightarrow>
                Inr (np_cumsum (map fst ml), map (fst \<circ> snd) ml,
                     map (snd (snd (voro2mod lib mv (length mv)))) [0..<length mv], px, py))"
      by (simp add: v2mod_as_l2mod)
    then show "v2mod lib mv dmax =
            (case d2mod md dmax of
               Inl e \<Rightarrow> Inl e
             | Inr (px, py) \<Rightarrow>
                 Inr (map fst md, map (fst \<circ> snd) md,
                      map (snd (snd (voro2mod lib mv (length mv)))) [0..<length mv], px, py))"
      using a eq by (auto split: sum.splits)
  }
qed

lemma reference_models_same_column:
  "map fst velmod_depth = np_cumsum (map fst velmod_thickness)"
  "map (fst \<circ> snd) velmod_depth = map (fst \<circ> snd) velmod_thickness"
  by (simp_all add: velmod_depth_def velmod_thickness_def np_cumsum_def)

lemma columns_voro2mod_reference:
  "map (fst (voro2mod (quiet_lib velmod_thickness) velmod_depth (length velmod_depth)))
         [0..<length velmod_depth] = map fst velmod_thickness"
  "map (fst (snd (voro2mod (quiet_lib velmod_thickness) velmod_depth (length velmod_depth))))
         [0..<length velmod_depth] = map (fst \<circ> snd) velmod_thickness"
proof -
  have len: "length velmod_depth = length velmod_thickness"
    by (simp add: velmod_depth_def velmod_thickness_def)
  show "map (fst (voro2mod (quiet_lib velmod_thickness) velmod_depth (length velmod_depth)))
         [0..<length velmod_depth] = map fst velmod_thickness"
    by (rule nth_equalityI)
       (simp_all add: len quiet_lib_def columns_voro2mod_def)
  show "map (fst (snd (voro2mod (quiet_lib velmod_thickness) velmod_depth (length velmod_depth))))
         [0..<length velmod_depth] = map (fst \<circ> snd) velmod_thickness"
    by (rule nth_equalityI)
       (simp_all add: len quiet_lib_def columns_voro2mod_def)
qed

lemma d2mod_reference:
  "d2mod velmod_depth 60 =
     Inr ([173 / 50, 173 / 50, 77 / 20, 77 / 20, 897 / 200, 897 / 200,
           899 / 200, 899 / 200, 9009 / 2000, 9009 / 2000, 9029 / 2000,
           9029 / 2000, 2283 / 500, 2283 / 500, 1861 / 400, 1861 / 400,
           9479 / 2000, 9479 / 2000, 9653 / 2000, 9653 / 2000, 5133 / 1000,
           5133 / 1000, 5239 / 1000, 5239 / 1000, 1069 / 200, 1069 / 200],
          [0, 20, 20, 35, 35, 155 / 2, 155 / 2, 120, 120, 165, 165, 210, 210,
           260, 260, 310, 310, 360, 360, 410, 410, 460, 460, 510, 510, 60])"
  by code_simp

theorem model_formats_of_one_column_give_one_plot_witness:
  "map fst velmod_depth = np_cumsum (map fst velmod_thickness)
   \<and> map (fst \<circ> snd) velmod_depth = map (fst \<circ> snd) velmod_thickness
   \<and> velmod_thickness \<noteq> []
   \<and> map (fst (voro2mod (quiet_lib velmod_thickness) velmod_depth (length velmod_depth)))
         [0..<length velmod_depth] = map fst velmod_thickness
   \<and> map (fst (snd (voro2mod (quiet_lib velmod_thickness) velmod_depth (length velmod_depth))))
         [0..<length velmod_depth] = map (fst \<circ> snd) velmod_thickness
   \<and> l2mod velmod_thickness 60 = d2mod velmod_depth 60
   \<and> (\<exists>px py. l2mod velmod_thickness 60 = Inr (px, py) \<and> d2mod velmod_depth 60 = Inr (px, py)
          \<and> length px = 26 \<and> length py = 26)
   \<and> (\<exists>vpvs px py. v2mod (quiet_lib velmod_thickness) velmod_depth 60
          = Inr (map fst velmod_depth, map (fst \<circ> snd) velmod_depth, vpvs, px, py)
          \<and> d2mod velmod_depth 60 = Inr (px, py))"
proof -
  have ne: "velmod_thickness \<noteq> []" and len: "length velmod_thickness = 13"
    by (simp_all add: velmod_thickness_def)
  note inst = model_formats_of_one_column_give_one_plot
    [of velmod_depth velmod_thickness 60 "quiet_lib velmod_thickness" velmod_depth]
  from inst reference_models_same_column columns_voro2mod_reference ne len
  show ?thesis
    by (auto split: sum.splits)
qed

subsection \<open>Truncation of the singular values\<close>

lemma comprehension_as_filter:
  "[n. (n, a) \<leftarrow> enumerate k s, P a] = filter (\<lambda>i. P (s ! (i - k))) [k..<k + length s]"
proof (induction s arbitrary: k)
  case Nil
  show ?case by simp
next
  case (Cons a s)
  have filt: "filter (\<lambda>i. P (s ! (i - Suc k))) [Suc k..<Suc k + length s]
          = filter (\<lambda>i. P ((a # s) ! (i - k))) [Suc k..<Suc k + length s]"
    by (rule filter_cong) (auto simp: nth_Cons')
  have upt: "[k..<k + length (a # s)] = k # [Suc k..<Suc k + length s]"
  proof -
    have e: "k + length (a # s) = Suc k + length s"
      by simp
    have "k < Suc k + length s"
      by simp
    then have "[k..<Suc k + length s] = k # [Suc k..<Suc k + length s]"
      by (rule upt_conv_Cons)
    then show ?thesis
      by (simp only: e)
  qed
  have "[n. (n, a') \<leftarrow> enumerate k (a # s), P a']
          = (if P a then [k] else []) @ [n. (n, a') \<leftarrow> enumerate (Suc k) s, P a']"
    by simp
  also have "\<dots> = (if P a then [k] else [])
                     @ filter (\<lambda>i. P (s ! (i - Suc k))) [Suc k..<Suc k + length s]"
    by (simp only: Cons.IH)
  also have "\<dots> = (if P a then [k] else [])
                     @ filter (\<lambda>i. P ((a # s) ! (i - k))) [Suc k..<Suc k + length s]"
    by (simp only: filt)
  also have "\<dots> = filter (\<lambda>i. P ((a # s) ! (i - k))) (k # [Suc k..<Suc k + length s])"
    by simp
  also have "\<dots> = filter (\<lambda>i. P ((a # s) ! (i - k))) [k..<k + length (a # s)]"
    by (simp only: upt)
  finally show ?case .
qed

lemma indices_as_filter:
  "[n. (n, a) \<leftarrow> enumerate 0 s, P a] = filter (\<lambda>i. P (s ! i)) [0..<length s]"
  using comprehension_as_filter [where k = 0 and s = s and P = P] by simp

lemma filter_upt_first:
  assumes "p < n" "Q p" "\<forall>i<p. \<not> Q i"
  shows "filter Q [0..<n] = p # filter Q [Suc p..<n]"
proof -
  have "[0..<n] = [0..<p] @ p # [Suc p..<n]"
    using assms(1) upt_add_eq_append [of 0 p "n - p"] upt_conv_Cons [of p n] by simp
  moreover have "filter Q [0..<p] = []"
    using assms(3) by (simp add: filter_empty_conv)
  ultimately show ?thesis
    using assms(2) by simp
qed

lemma filter_upt_last:
  assumes "q < n" "Q q" "\<forall>i. q < i \<and> i < n \<longrightarrow> \<not> Q i"
  shows "filter Q [0..<n] = filter Q [0..<q] @ [q]"
proof -
  have "[0..<n] = [0..<q] @ q # [Suc q..<n]"
    using assms(1) upt_add_eq_append [of 0 q "n - q"] upt_conv_Cons [of q n] by simp
  moreover have "filter Q [Suc q..<n] = []"
    using assms(3) by (auto simp: filter_empty_conv)
  ultimately show ?thesis
    using assms(2) by simp
qed

lemma pmax_first_below_eq:
  assumes "p < length s" "s ! p < cutoff" "\<forall>i<p. \<not> s ! i < cutoff"
  shows "pmax_first_below s = Inr p"
  unfolding pmax_first_below_def indices_as_filter
  using filter_upt_first [of p "length s" "\<lambda>i. s ! i < cutoff"] assms by simp

lemma pmax_last_above_eq:
  assumes "q < length s" "s ! q > cutoff" "\<forall>i. q < i \<and> i < length s \<longrightarrow> \<not> s ! i > cutoff"
  shows "pmax_last_above s = Inr (q + 1)"
proof -
  have "filter (\<lambda>i. s ! i > cutoff) [0..<length s] = filter (\<lambda>i. s ! i > cutoff) [0..<q] @ [q]"
    using filter_upt_last [of q "length s" "\<lambda>i. s ! i > cutoff"] assms by simp
  moreover obtain n ns where
    "filter (\<lambda>i. s ! i > cutoff) [0..<q] @ [q] = n # ns"
    by (cases "filter (\<lambda>i. s ! i > cutoff) [0..<q] @ [q]") simp_all
  ultimately have f: "filter (\<lambda>i. s ! i > cutoff) [0..<length s] = n # ns"
    and l: "last (n # ns) = q"
    by (simp_all del: last.simps) (metis last_snoc)
  show ?thesis
    unfolding pmax_last_above_def indices_as_filter f
    using l by (simp del: last.simps)
qed

lemma pmax_first_below_Inr:
  assumes "pmax_first_below s = Inr p"
  shows "p < length s \<and> s ! p < cutoff \<and> (\<forall>i<p. \<not> s ! i < cutoff)"
proof -
  let ?Q = "\<lambda>i. s ! i < cutoff"
  obtain ns where f: "filter ?Q [0..<length s] = p # ns"
    using assms unfolding pmax_first_below_def indices_as_filter
    by (auto split: list.splits)
  then have "p \<in> set (filter ?Q [0..<length s])"
    by simp
  then have 1: "p < length s" "s ! p < cutoff"
    by auto
  have "sorted (filter ?Q [0..<length s])"
    by (rule sorted_wrt_filter) simp
  then have le: "\<forall>y\<in>set (filter ?Q [0..<length s]). p \<le> y"
    unfolding f by auto
  have "\<forall>i<p. \<not> s ! i < cutoff"
  proof (intro allI impI notI)
    fix i assume "i < p" "s ! i < cutoff"
    then have "i \<in> set (filter ?Q [0..<length s])"
      using 1(1) by simp
    with le have "p \<le> i" by blast
    with \<open>i < p\<close> show False by simp
  qed
  with 1 show ?thesis by simp
qed

lemma pmax_first_below_Inl:
  "(\<exists>e. pmax_first_below s = Inl e) \<longleftrightarrow> (\<forall>a\<in>set s. cutoff \<le> a)"
proof -
  have "(\<exists>e. pmax_first_below s = Inl e) \<longleftrightarrow> filter (\<lambda>i. s ! i < cutoff) [0..<length s] = []"
    unfolding pmax_first_below_def indices_as_filter by (auto split: list.splits)
  also have "\<dots> \<longleftrightarrow> (\<forall>i<length s. cutoff \<le> s ! i)"
    by (auto simp: filter_empty_conv not_less)
  also have "\<dots> \<longleftrightarrow> (\<forall>a\<in>set s. cutoff \<le> a)"
    by (auto simp: all_set_conv_all_nth)
  finally show ?thesis .
qed

lemma pmax_first_below_error: "pmax_first_below s = Inl e \<Longrightarrow> e = IndexError"
  by (auto simp: pmax_first_below_def split: list.splits)

lemma matrix_mk_simps:
  "nrows (mk_matrix r c f) = r" "ncols (mk_matrix r c f) = c"
  "entry (mk_matrix r c f) i j = (if i < r \<and> j < c then f i j else 0)"
  by (simp_all add: mk_matrix_def)

lemma mk_matrix_cong:
  "(\<And>i j. i < r \<Longrightarrow> j < c \<Longrightarrow> f i j = g i j) \<Longrightarrow> mk_matrix r c f = mk_matrix r c g"
  by (auto simp: mk_matrix_def fun_eq_iff)

lemma diag_sum:
  assumes "k < (p::nat)"
  shows "(\<Sum>l<p. (if k = l then d k else 0) * g l) = d k * (g k :: real)"
proof -
  have "(\<Sum>l<p. (if k = l then d k else 0) * g l) = (\<Sum>l<p. if k = l then d k * g l else 0)"
    by (rule sum.cong) simp_all
  also have "\<dots> = d k * g k"
    using assms by (simp add: sum.delta')
  finally show ?thesis .
qed

lemma truncated_inverse_entries:
  assumes U: "nrows U = n" "ncols U = n" and V: "nrows V = n" "ncols V = n"
      and s: "length s = n" and p: "p \<le> n"
  shows "truncated_inverse U s V p Arsq =
           Inr (mk_matrix n n (\<lambda>i j. (\<Sum>k<p. entry V k i * (1 / s ! k) * entry U j k) / Arsq))"
proof -
  let ?Sinv = "np_diag (map (\<lambda>a. 1 / a) (take p s))"
  let ?Ut = "rows_upto p (transpose_m U)"
  let ?Vt = "cols_upto p (transpose_m V)"
  let ?B = "mk_matrix p n (\<lambda>k j. (1 / s ! k) * entry U j k)"
  let ?C = "mk_matrix n n (\<lambda>i j. \<Sum>k<p. entry V k i * (1 / s ! k) * entry U j k)"
  have shapes: "nrows ?Sinv = p" "ncols ?Sinv = p" "nrows ?Ut = p" "ncols ?Ut = n"
    "nrows ?Vt = n" "ncols ?Vt = p"
    using U V s p by (simp_all add: np_diag_def rows_upto_def cols_upto_def transpose_m_def
        matrix_mk_simps min_def)
  have B: "np_dot ?Sinv ?Ut = Inr ?B"
  proof -
    have "mk_matrix p n (\<lambda>i j. \<Sum>k<p. entry ?Sinv i k * entry ?Ut k j) = ?B"
    proof (rule mk_matrix_cong)
      fix i j assume ij: "i < p" "j < n"
      have "(\<Sum>k<p. entry ?Sinv i k * entry ?Ut k j)
              = (\<Sum>k<p. (if i = k then 1 / s ! i else 0) * entry U j k)"
        using ij U s p
        by (intro sum.cong refl)
           (simp add: np_diag_def rows_upto_def transpose_m_def matrix_mk_simps)
      also have "\<dots> = (1 / s ! i) * entry U j i"
        using ij(1) by (rule diag_sum)
      finally show "(\<Sum>k<p. entry ?Sinv i k * entry ?Ut k j) = 1 / s ! i * entry U j i" .
    qed
    then show ?thesis
      by (simp add: np_dot_def shapes)
  qed
  have C: "np_dot ?Vt ?B = Inr ?C"
  proof -
    have "mk_matrix n n (\<lambda>i j. \<Sum>k<p. entry ?Vt i k * entry ?B k j) = ?C"
    proof (rule mk_matrix_cong)
      fix i j assume ij: "i < n" "j < n"
      show "(\<Sum>k<p. entry ?Vt i k * entry ?B k j)
              = (\<Sum>k<p. entry V k i * (1 / s ! k) * entry U j k)"
        using ij V p
        by (intro sum.cong refl)
           (simp add: cols_upto_def transpose_m_def matrix_mk_simps)
    qed
    then show ?thesis
      by (simp add: np_dot_def shapes matrix_mk_simps)
  qed
  have D: "div_scalar ?C Arsq =
        mk_matrix n n (\<lambda>i j. (\<Sum>k<p. entry V k i * (1 / s ! k) * entry U j k) / Arsq)"
    unfolding div_scalar_def matrix_mk_simps
    by (rule mk_matrix_cong) simp
  show ?thesis
    unfolding truncated_inverse_def Let_def
    by (simp only: B C D sum.case)
qed

lemma sorted_le_last: "sorted xs \<Longrightarrow> x \<in> set xs \<Longrightarrow> x \<le> last (xs :: nat list)"
  by (induction xs) auto

lemma pmax_last_above_Inr:
  assumes "pmax_last_above s = Inr p"
  shows "0 < p \<and> p \<le> length s \<and> s ! (p - 1) > cutoff
           \<and> (\<forall>i. p \<le> i \<and> i < length s \<longrightarrow> \<not> s ! i > cutoff)"
proof -
  let ?Q = "\<lambda>i. s ! i > cutoff"
  obtain n ns where f: "filter ?Q [0..<length s] = n # ns" and p: "p = last (n # ns) + 1"
    using assms unfolding pmax_last_above_def indices_as_filter
    by (auto split: list.splits)
  let ?m = "last (n # ns)"
  have "?m \<in> set (n # ns)"
    by (rule last_in_set) simp
  then have "?m \<in> set (filter ?Q [0..<length s])"
    by (simp only: f)
  then have 1: "?m < length s" "s ! ?m > cutoff"
    by auto
  have "sorted (filter ?Q [0..<length s])"
    by (rule sorted_wrt_filter) simp
  then have srt: "sorted (n # ns)"
    by (simp only: f)
  have "\<forall>i. p \<le> i \<and> i < length s \<longrightarrow> \<not> s ! i > cutoff"
  proof (intro allI impI notI)
    fix i assume i: "p \<le> i \<and> i < length s" and "s ! i > cutoff"
    then have "i \<in> set (filter ?Q [0..<length s])"
      by simp
    then have "i \<in> set (n # ns)"
      by (simp only: f)
    with srt have "i \<le> ?m"
      by (rule sorted_le_last)
    with i p show False by simp
  qed
  with 1 p show ?thesis by simp
qed

lemma take_first_below:
  assumes "p < length s" "s ! p < cutoff" "\<forall>i<p. \<not> s ! i < cutoff"
  shows "take p s = takeWhile (\<lambda>a. \<not> a < cutoff) s"
  using assms by (intro takeWhile_eq_take_P_nth [symmetric]) auto

lemma InvDataCov_first_below:
  assumes "fill_Cd (width\<^sup>2) ndata = Inr Cd" "svd_f Cd = Inr (U, s, V)"
      and "nrows U = n" "ncols U = n" "nrows V = n" "ncols V = n" "length s = n"
      and "p < n" "s ! p < cutoff" "\<forall>i<p. \<not> s ! i < cutoff"
  shows "InvDataCov svd_f width Ar ndata =
           Inr (mk_matrix n n
                  (\<lambda>i j. (\<Sum>k<p. entry V k i * (1 / s ! k) * entry U j k) / (Ar * Ar)))"
proof -
  have pm: "pmax_first_below s = Inr p"
    using assms by (intro pmax_first_below_eq) simp_all
  have ti: "truncated_inverse U s V p (Ar * Ar) =
           Inr (mk_matrix n n
                  (\<lambda>i j. (\<Sum>k<p. entry V k i * (1 / s ! k) * entry U j k) / (Ar * Ar)))"
    using assms by (intro truncated_inverse_entries) simp_all
  show ?thesis
    unfolding InvDataCov_def Let_def
    by (simp only: assms(1,2) pm ti sum.case prod.case)
qed

lemma InvDataCovSub_last_above:
  assumes "fill_Cd (width\<^sup>2) ndata = Inr Cd" "take_rows Cd ind = Inr R"
      and "take_cols R ind = Inr Cdused" "svd_f Cdused = Inr (U, s, V)"
      and "nrows U = n" "ncols U = n" "nrows V = n" "ncols V = n" "length s = n"
      and "q < n" "s ! q > cutoff" "\<forall>i. q < i \<and> i < n \<longrightarrow> \<not> s ! i > cutoff"
  shows "InvDataCovSub svd_f width Ar ndata ind =
           Inr (mk_matrix n n
                  (\<lambda>i j. (\<Sum>k<q + 1. entry V k i * (1 / s ! k) * entry U j k) / (Ar * Ar)))"
proof -
  have pm: "pmax_last_above s = Inr (q + 1)"
    using assms by (intro pmax_last_above_eq) simp_all
  have ti: "truncated_inverse U s V (q + 1) (Ar * Ar) =
           Inr (mk_matrix n n
                  (\<lambda>i j. (\<Sum>k<q + 1. entry V k i * (1 / s ! k) * entry U j k) / (Ar * Ar)))"
    using assms by (intro truncated_inverse_entries) simp_all
  show ?thesis
    unfolding InvDataCovSub_def Let_def
    by (simp only: assms(1-4) pm ti sum.case prod.case)
qed

lemma rules_differ:
  "pmax_first_below [1, cutoff, cutoff / 10] = Inr 2"
  "pmax_last_above [1, cutoff, cutoff / 10] = Inr 1"
  by (simp_all add: pmax_first_below_def pmax_last_above_def cutoff_def enumerate_eq_zip upt_rec)

text \<open>
  Claim C1. \<open>InvDataCov\<close> and \<open>InvDataCovSub\<close> truncate by two rules against the same
  threshold. Let the decomposition routine return factors of shape \<open>n\<close> by \<open>n\<close> and \<open>n\<close>
  singular values, and let the amplitude and the retained singular values be non-zero
  (no division by zero). If \<open>p\<close> is the position of the first singular value strictly below
  the threshold, \<open>InvDataCov\<close> keeps the \<open>p\<close> values before it (all the leading values
  that are not below the threshold) and returns the matrix with entries
  \<open>(\<Sum>k<p. V[k,i] * (1 / s[k]) * U[j,k]) / Ar\<^sup>2\<close>. If \<open>q\<close> is the position of the last
  singular value strictly above the threshold, \<open>InvDataCovSub\<close> keeps the \<open>q + 1\<close> leading
  values and returns the matrix of the same form with \<open>q + 1\<close> terms. Conversely, a
  cutoff computed by either rule is such a position. On the descending list
  \<open>[1, 10\<^sup>-\<^sup>6, 10\<^sup>-\<^sup>7]\<close> the first rule keeps two values and the second keeps one.
\<close>

theorem two_truncation_rules:
  "(fill_Cd (width\<^sup>2) ndata = Inr Cd \<and> svd_f Cd = Inr (U, s, V)
      \<and> nrows U = n \<and> ncols U = n \<and> nrows V = n \<and> ncols V = n \<and> length s = n
      \<and> p < n \<and> s ! p < cutoff \<and> (\<forall>i<p. \<not> s ! i < cutoff) \<and> Ar \<noteq> 0
    \<longrightarrow> pmax_first_below s = Inr p
        \<and> take p s = takeWhile (\<lambda>a. \<not> a < cutoff) s
        \<and> InvDataCov svd_f width Ar ndata =
            Inr (mk_matrix n n
                   (\<lambda>i j. (\<Sum>k<p. entry V k i * (1 / s ! k) * entry U j k) / (Ar * Ar))))
   \<and> (fill_Cd (width\<^sup>2) ndata = Inr Cd \<and> take_rows Cd ind = Inr R
      \<and> take_cols R ind = Inr Cdused \<and> svd_f Cdused = Inr (U', s', V')
      \<and> nrows U' = m \<and> ncols U' = m \<and> nrows V' = m \<and> ncols V' = m \<and> length s' = m
      \<and> q < m \<and> s' ! q > cutoff \<and> (\<forall>i. q < i \<and> i < m \<longrightarrow> \<not> s' ! i > cutoff)
      \<and> (\<forall>k<q. s' ! k \<noteq> 0) \<and> Ar \<noteq> 0
    \<longrightarrow> pmax_last_above s' = Inr (q + 1)
        \<and> InvDataCovSub svd_f width Ar ndata ind =
            Inr (mk_matrix m m
                   (\<lambda>i j. (\<Sum>k<q + 1. entry V' k i * (1 / s' ! k) * entry U' j k) / (Ar * Ar))))
   \<and> (pmax_first_below s = Inr p
    \<longrightarrow> p < length s \<and> s ! p < cutoff \<and> (\<forall>i<p. \<not> s ! i < cutoff))
   \<and> (pmax_last_above s' = Inr p'
    \<longrightarrow> 0 < p' \<and> p' \<le> length s' \<and> s' ! (p' - 1) > cutoff
        \<and> (\<forall>i. p' \<le> i \<and> i < length s' \<longrightarrow> \<not> s' ! i > cutoff))
   \<and> pmax_first_below [1, cutoff, cutoff / 10] = Inr 2
   \<and> pmax_last_above [1, cutoff, cutoff / 10] = Inr 1"
proof -
  have A: "fill_Cd (width\<^sup>2) ndata = Inr Cd \<and> svd_f Cd = Inr (U, s, V)
      \<and> nrows U = n \<and> ncols U = n \<and> nrows V = n \<and> ncols V = n \<and> length s = n
      \<and> p < n \<and> s ! p < cutoff \<and> (\<forall>i<p. \<not> s ! i < cutoff) \<and> Ar \<noteq> 0
    \<longrightarrow> pmax_first_below s = Inr p
        \<and> take p s = takeWhile (\<lambda>a. \<not> a < cutoff) s
        \<and> InvDataCov svd_f width Ar ndata =
            Inr (mk_matrix n n
                   (\<lambda>i j. (\<Sum>k<p. entry V k i * (1 / s ! k) * entry U j k) / (Ar * Ar)))"
    using pmax_first_below_eq [of p s] take_first_below [of p s]
      InvDataCov_first_below [of width ndata Cd svd_f U s V n p Ar]
    by simp
  have B: "fill_Cd (width\<^sup>2) ndata = Inr Cd \<and> take_rows Cd ind = Inr R
      \<and> take_cols R ind = Inr Cdused \<and> svd_f Cdused = Inr (U', s', V')
      \<and> nrows U' = m \<and> ncols U' = m \<and> nrows V' = m \<and> ncols V' = m \<and> length s' = m
      \<and> q < m \<and> s' ! q > cutoff \<and> (\<forall>i. q < i \<and> i < m \<longrightarrow> \<not> s' ! i > cutoff)
      \<and> (\<forall>k<q. s' ! k \<noteq> 0) \<and> Ar \<noteq> 0
    \<longrightarrow> pmax_last_above s' = Inr (q + 1)
        \<and> InvDataCovSub svd_f width Ar ndata ind =
            Inr (mk_matrix m m
                   (\<lambda>i j. (\<Sum>k<q + 1. entry V' k i * (1 / s' ! k) * entry U' j k) / (Ar * Ar)))"
    using pmax_last_above_eq [of q s']
      InvDataCovSub_last_above [of width ndata Cd ind R Cdused svd_f U' s' V' m q Ar]
    by simp
  have C: "pmax_first_below s = Inr p
    \<longrightarrow> p < length s \<and> s ! p < cutoff \<and> (\<forall>i<p. \<not> s ! i < cutoff)"
    using pmax_first_below_Inr [of s p] by blast
  have D: "pmax_last_above s' = Inr p'
    \<longrightarrow> 0 < p' \<and> p' \<le> length s' \<and> s' ! (p' - 1) > cutoff
        \<and> (\<forall>i. p' \<le> i \<and> i < length s' \<longrightarrow> \<not> s' ! i > cutoff)"
    using pmax_last_above_Inr [of s' p'] by blast
  from A B C D rules_differ show ?thesis
    by (intro conjI) assumption+
qed

theorem two_truncation_rules_witness:
  "InvDataCov (fixed_svd (identity_m 2) [1, 0] (identity_m 2)) (5 / 2) (1 / 100) 2 =
     Inr (mk_matrix 2 2
            (\<lambda>i j. (\<Sum>k<1. entry (identity_m 2) k i * (1 / [1, 0] ! k) * entry (identity_m 2) j k)
                     / (1 / 100 * (1 / 100))))
   \<and> pmax_first_below [1, 0] = Inr 1
   \<and> take 1 [1, 0 :: real] = takeWhile (\<lambda>a. \<not> a < cutoff) [1, 0]
   \<and> [1, 0 :: real] ! 1 < cutoff \<and> \<not> [1, 0 :: real] ! 0 < cutoff \<and> (1 / 100 :: real) \<noteq> 0
   \<and> InvDataCovSub (fixed_svd (identity_m 2) [1, 0] (identity_m 2)) (5 / 2) (1 / 100) 3 [0, - 1] =
     Inr (mk_matrix 2 2
            (\<lambda>i j. (\<Sum>k<0 + 1. entry (identity_m 2) k i * (1 / [1, 0] ! k) * entry (identity_m 2) j k)
                     / (1 / 100 * (1 / 100))))
   \<and> pmax_last_above [1, 0] = Inr (0 + 1)
   \<and> [1, 0 :: real] ! 0 > cutoff \<and> \<not> [1, 0 :: real] ! 1 > cutoff"
proof -
  let ?svd = "fixed_svd (identity_m 2) [1, 0] (identity_m 2)"
  let ?Cd2 = "mk_matrix 2 2 (Cd_entry ((5 / 2)\<^sup>2))"
  let ?Cd3 = "mk_matrix 3 3 (Cd_entry ((5 / 2)\<^sup>2))"
  let ?R = "mk_matrix (length [0, 2 :: nat]) (ncols ?Cd3) (\<lambda>i j. entry ?Cd3 ([0, 2] ! i) j)"
  let ?Cdused = "mk_matrix (nrows ?R) (length [0, 2 :: nat]) (\<lambda>i j. entry ?R i ([0, 2] ! j))"
  have c2: "fill_Cd ((5 / 2)\<^sup>2) 2 = Inr ?Cd2" and c3: "fill_Cd ((5 / 2)\<^sup>2) 3 = Inr ?Cd3"
    by (simp_all add: fill_Cd_def)
  have ni: "norm_indices (nrows ?Cd3) [0, - 1] = Inr [0, 2]"
    "norm_indices (ncols ?R) [0, - 1] = Inr [0, 2]"
    by (simp_all add: norm_index_def matrix_mk_simps)
  have r: "take_rows ?Cd3 [0, - 1] = Inr ?R"
    by (simp only: take_rows_def ni sum.case)
  have c: "take_cols ?R [0, - 1] = Inr ?Cdused"
    by (simp only: take_cols_def ni sum.case)
  have sv: "?svd ?Cd2 = Inr (identity_m 2, [1, 0], identity_m 2)"
    "?svd ?Cdused = Inr (identity_m 2, [1, 0], identity_m 2)"
    by (simp_all add: fixed_svd_def)
  have sh: "nrows (identity_m 2) = 2" "ncols (identity_m 2) = 2" "length [1, 0 :: real] = 2"
    by (simp_all add: identity_m_def matrix_mk_simps)
  have below: "(1::nat) < 2" "[1, 0 :: real] ! 1 < cutoff" "\<forall>i<1. \<not> [1, 0 :: real] ! i < cutoff"
    by (simp_all add: cutoff_def)
  have above: "(0::nat) < 2" "[1, 0 :: real] ! 0 > cutoff"
    "\<forall>i. 0 < i \<and> i < 2 \<longrightarrow> \<not> [1, 0 :: real] ! i > cutoff"
    "\<forall>k<0. [1, 0 :: real] ! k \<noteq> 0"
    by (auto simp: cutoff_def nth_Cons' less_Suc_eq numeral_2_eq_2)
  have amp: "(1 / 100 :: real) \<noteq> 0"
    by simp
  note full = two_truncation_rules
    [where width = "5 / 2" and ndata = 2 and Cd = ?Cd2 and svd_f = ?svd
       and U = "identity_m 2" and s = "[1, 0]" and V = "identity_m 2" and n = 2 and p = 1
       and Ar = "1 / 100"]
  note sub = two_truncation_rules
    [where width = "5 / 2" and ndata = 3 and Cd = ?Cd3 and svd_f = ?svd
       and ind = "[0, - 1]" and R = ?R and Cdused = ?Cdused
       and U' = "identity_m 2" and s' = "[1, 0]" and V' = "identity_m 2" and m = 2 and q = 0
       and Ar = "1 / 100"]
  have 1: "InvDataCov ?svd (5 / 2) (1 / 100) 2 =
     Inr (mk_matrix 2 2
            (\<lambda>i j. (\<Sum>k<1. entry (identity_m 2) k i * (1 / [1, 0] ! k) * entry (identity_m 2) j k)
                     / (1 / 100 * (1 / 100))))"
    "pmax_first_below [1, 0] = Inr 1"
    "take 1 [1, 0 :: real] = takeWhile (\<lambda>a. \<not> a < cutoff) [1, 0]"
    using full c2 sv(1) sh below amp by blast+
  have 2: "InvDataCovSub ?svd (5 / 2) (1 / 100) 3 [0, - 1] =
     Inr (mk_matrix 2 2
            (\<lambda>i j. (\<Sum>k<0 + 1. entry (identity_m 2) k i * (1 / [1, 0] ! k) * entry (identity_m 2) j k)
                     / (1 / 100 * (1 / 100))))"
    "pmax_last_above [1, 0] = Inr (0 + 1)"
    using sub c3 r c sv(2) sh above amp by blast+
  from 1 2 below above amp show ?thesis
    by simp
qed

subsection \<open>The precondition of \<open>InvDataCov\<close>\<close>

lemma InvDataCov_Inr_needs_small:
  assumes "InvDataCov svd_f width Ar ndata = Inr M"
  shows "\<exists>Cd U s V. fill_Cd (width\<^sup>2) ndata = Inr Cd \<and> svd_f Cd = Inr (U, s, V)
           \<and> (\<exists>a\<in>set s. a < cutoff)"
proof -
  obtain Cd where cd: "fill_Cd (width\<^sup>2) ndata = Inr Cd"
    using assms by (cases "fill_Cd (width\<^sup>2) ndata") (simp_all add: InvDataCov_def)
  obtain U s V where sv: "svd_f Cd = Inr (U, s, V)"
    using assms cd by (cases "svd_f Cd") (auto simp: InvDataCov_def)
  obtain p where pm: "pmax_first_below s = Inr p"
    using assms cd sv by (cases "pmax_first_below s") (simp_all add: InvDataCov_def)
  from pmax_first_below_Inr [OF pm] have "s ! p \<in> set s" "s ! p < cutoff"
    by simp_all
  with cd sv show ?thesis by blast
qed

lemma InvDataCov_IndexError:
  assumes "fill_Cd (width\<^sup>2) ndata = Inr Cd" "svd_f Cd = Inr (U, s, V)"
      and "\<forall>a\<in>set s. cutoff \<le> a"
  shows "InvDataCov svd_f width Ar ndata = Inl IndexError"
proof -
  obtain e where "pmax_first_below s = Inl e"
    using assms(3) pmax_first_below_Inl [of s] by blast
  then have "pmax_first_below s = Inl IndexError"
    using pmax_first_below_error [of s e] by simp
  then show ?thesis
    by (simp add: InvDataCov_def assms(1,2))
qed

lemma svd_one_by_one:
  assumes "is_svd (mk_matrix 1 1 (\<lambda>i j. 1)) U s V"
  shows "s = [1]"
proof -
  let ?u = "entry U 0 0" and ?v = "entry V 0 0" and ?x = "s ! 0"
  from assms have len: "length s = 1" and nn: "0 \<le> ?x"
    and u: "?u * ?u = 1" and v: "?v * ?v = 1" and a: "?u * ?x * ?v = 1"
    by (simp_all add: is_svd_def matrix_mk_simps)
  have "?x * ?x = (?u * ?u) * (?x * ?x) * (?v * ?v)"
    by (simp add: u v)
  also have "\<dots> = (?u * ?x * ?v) * (?u * ?x * ?v)"
    by (simp add: algebra_simps)
  also have "\<dots> = 1"
    by (simp add: a)
  finally have "?x * ?x = 1" .
  then have "?x = 1 \<or> ?x = - 1"
    using square_eq_1_iff [of ?x] by blast
  with nn have "?x = 1" by auto
  with len show ?thesis
    by (cases s) simp_all
qed

lemma Cd_one_by_one:
  "width \<noteq> 0 \<Longrightarrow> fill_Cd (width\<^sup>2) 1 = Inr (mk_matrix 1 1 (\<lambda>i j. 1))"
proof -
  have "mk_matrix 1 1 (Cd_entry (width\<^sup>2)) = mk_matrix 1 1 (\<lambda>i j. 1)"
    by (rule mk_matrix_cong) (simp add: Cd_entry_def)
  moreover assume "width \<noteq> 0"
  ultimately show ?thesis
    by (simp add: fill_Cd_def)
qed

text \<open>
  Claim C10. \<open>InvDataCov\<close> returns a matrix only if one of the singular values it gets
  is strictly below the threshold. If every singular value is at least the threshold,
  the first element of an empty list is taken and the call raises \<open>IndexError\<close>. For
  \<open>ndata = 1\<close> and a non-zero width the covariance is the 1 by 1 matrix \<open>[[1]]\<close>, whose
  only singular value is 1, so the call raises \<open>IndexError\<close> with any decomposition
  routine that returns a singular value decomposition.
\<close>

theorem InvDataCov_requires_singular_value_below_cutoff:
  "(InvDataCov svd_f width Ar ndata = Inr M \<longrightarrow>
      (\<exists>Cd U s V. fill_Cd (width\<^sup>2) ndata = Inr Cd \<and> svd_f Cd = Inr (U, s, V)
         \<and> (\<exists>a\<in>set s. a < cutoff)))
   \<and> (fill_Cd (width\<^sup>2) ndata = Inr Cd \<and> svd_f Cd = Inr (U, s, V)
        \<and> (\<forall>a\<in>set s. cutoff \<le> a) \<longrightarrow>
      InvDataCov svd_f width Ar ndata = Inl IndexError)
   \<and> (width \<noteq> 0 \<and> svd_f (mk_matrix 1 1 (\<lambda>i j. 1)) = Inr (U1, s1, V1)
        \<and> is_svd (mk_matrix 1 1 (\<lambda>i j. 1)) U1 s1 V1 \<longrightarrow>
      fill_Cd (width\<^sup>2) 1 = Inr (mk_matrix 1 1 (\<lambda>i j. 1)) \<and> s1 = [1]
      \<and> InvDataCov svd_f width Ar 1 = Inl IndexError)"
proof -
  have A: "InvDataCov svd_f width Ar ndata = Inr M \<longrightarrow>
      (\<exists>Cd U s V. fill_Cd (width\<^sup>2) ndata = Inr Cd \<and> svd_f Cd = Inr (U, s, V)
         \<and> (\<exists>a\<in>set s. a < cutoff))"
    using InvDataCov_Inr_needs_small [of svd_f width Ar ndata M] by blast
  have B: "fill_Cd (width\<^sup>2) ndata = Inr Cd \<and> svd_f Cd = Inr (U, s, V)
        \<and> (\<forall>a\<in>set s. cutoff \<le> a) \<longrightarrow>
      InvDataCov svd_f width Ar ndata = Inl IndexError"
    using InvDataCov_IndexError [of width ndata Cd svd_f U s V Ar] by blast
  have C: "width \<noteq> 0 \<and> svd_f (mk_matrix 1 1 (\<lambda>i j. 1)) = Inr (U1, s1, V1)
        \<and> is_svd (mk_matrix 1 1 (\<lambda>i j. 1)) U1 s1 V1 \<longrightarrow>
      fill_Cd (width\<^sup>2) 1 = Inr (mk_matrix 1 1 (\<lambda>i j. 1)) \<and> s1 = [1]
      \<and> InvDataCov svd_f width Ar 1 = Inl IndexError"
  proof (intro impI)
    assume h: "width \<noteq> 0 \<and> svd_f (mk_matrix 1 1 (\<lambda>i j. 1)) = Inr (U1, s1, V1)
        \<and> is_svd (mk_matrix 1 1 (\<lambda>i j. 1)) U1 s1 V1"
    then have cd: "fill_Cd (width\<^sup>2) 1 = Inr (mk_matrix 1 1 (\<lambda>i j. 1))"
      using Cd_one_by_one [of width] by blast
    from h have s1: "s1 = [1]"
      using svd_one_by_one [of U1 s1 V1] by blast
    then have "\<forall>a\<in>set s1. cutoff \<le> a"
      by (simp add: cutoff_def)
    with cd h have "InvDataCov svd_f width Ar 1 = Inl IndexError"
      by (intro InvDataCov_IndexError [where Cd = "mk_matrix 1 1 (\<lambda>i j. 1)" and s = s1]) simp_all
    with cd s1 show "fill_Cd (width\<^sup>2) 1 = Inr (mk_matrix 1 1 (\<lambda>i j. 1)) \<and> s1 = [1]
      \<and> InvDataCov svd_f width Ar 1 = Inl IndexError"
      by simp
  qed
  from A B C show ?thesis
    by (intro conjI) assumption+
qed

theorem InvDataCov_requires_singular_value_below_cutoff_witness:
  "InvDataCov (fixed_svd (identity_m 2) [1, 0] (identity_m 2)) (5 / 2) (1 / 100) 2 =
     Inr (mk_matrix 2 2
            (\<lambda>i j. (\<Sum>k<1. entry (identity_m 2) k i * (1 / [1, 0] ! k) * entry (identity_m 2) j k)
                     / (1 / 100 * (1 / 100))))
   \<and> (\<exists>a\<in>set [1, 0 :: real]. a < cutoff)
   \<and> cutoff \<le> 1 \<and> cutoff \<le> 1 / 2
   \<and> InvDataCov (fixed_svd (identity_m 2) [1, 1 / 2] (identity_m 2)) (5 / 2) (1 / 100) 2
       = Inl IndexError
   \<and> (5 / 2 :: real) \<noteq> 0
   \<and> is_svd (mk_matrix 1 1 (\<lambda>i j. 1)) (identity_m 1) [1] (identity_m 1)
   \<and> InvDataCov (fixed_svd (identity_m 1) [1] (identity_m 1)) (5 / 2) (1 / 100) 1
       = Inl IndexError"
proof -
  let ?Cd2 = "mk_matrix 2 2 (Cd_entry ((5 / 2)\<^sup>2))"
  have c2: "fill_Cd ((5 / 2)\<^sup>2) 2 = Inr ?Cd2"
    by (simp add: fill_Cd_def)
  have ret: "InvDataCov (fixed_svd (identity_m 2) [1, 0] (identity_m 2)) (5 / 2) (1 / 100) 2 =
     Inr (mk_matrix 2 2
            (\<lambda>i j. (\<Sum>k<1. entry (identity_m 2) k i * (1 / [1, 0] ! k) * entry (identity_m 2) j k)
                     / (1 / 100 * (1 / 100))))"
    by (rule InvDataCov_first_below [where Cd = ?Cd2])
       (simp_all add: c2 fixed_svd_def identity_m_def matrix_mk_simps cutoff_def)
  have small: "\<exists>a\<in>set [1, 0 :: real]. a < cutoff"
    using InvDataCov_requires_singular_value_below_cutoff
      [where svd_f = "fixed_svd (identity_m 2) [1, 0] (identity_m 2)" and width = "5 / 2"
         and Ar = "1 / 100" and ndata = 2] ret
    by (auto simp: fixed_svd_def)
  have big: "cutoff \<le> 1" "cutoff \<le> 1 / 2"
    by (simp_all add: cutoff_def)
  have err: "InvDataCov (fixed_svd (identity_m 2) [1, 1 / 2] (identity_m 2)) (5 / 2) (1 / 100) 2
       = Inl IndexError"
    using InvDataCov_requires_singular_value_below_cutoff
      [where svd_f = "fixed_svd (identity_m 2) [1, 1 / 2] (identity_m 2)" and width = "5 / 2"
         and Ar = "1 / 100" and ndata = 2 and Cd = ?Cd2 and U = "identity_m 2"
         and s = "[1, 1 / 2]" and V = "identity_m 2"] c2 big
    by (simp add: fixed_svd_def)
  have svd1: "is_svd (mk_matrix 1 1 (\<lambda>i j. 1)) (identity_m 1) [1] (identity_m 1)"
    by (simp add: is_svd_def identity_m_def matrix_mk_simps)
  have one: "InvDataCov (fixed_svd (identity_m 1) [1] (identity_m 1)) (5 / 2) (1 / 100) 1
       = Inl IndexError"
    using InvDataCov_requires_singular_value_below_cutoff
      [where svd_f = "fixed_svd (identity_m 1) [1] (identity_m 1)" and width = "5 / 2"
         and Ar = "1 / 100" and ?U1.0 = "identity_m 1" and ?s1.0 = "[1]"
         and ?V1.0 = "identity_m 1"] svd1
    by (simp add: fixed_svd_def)
  from ret small big err svd1 one show ?thesis
    by simp
qed

subsection \<open>The time-domain noise injector\<close>

lemma fill_K_bound:
  "fill_K (Inr f) xx nt = Inr (mk_matrix nt nt (\<lambda>i j. f (xx ! i) (xx ! j)))"
proof (cases "nt = 0")
  case True
  have "mk_matrix 0 0 (\<lambda>i j. 0) = mk_matrix 0 0 (\<lambda>i j. f (xx ! i) (xx ! j))"
    by (rule mk_matrix_cong) simp
  with True show ?thesis by (simp add: fill_K_def)
next
  case False
  then show ?thesis by (simp add: fill_K_def)
qed

lemma fill_K_raises: "nt \<noteq> 0 \<Longrightarrow> fill_K (Inl e) xx nt = Inl e"
  by (simp add: fill_K_def)

lemma np_iadd_same_length: "length z = length w \<Longrightarrow> np_iadd w z = Inr (map2 (+) w z)"
  by (simp add: np_iadd_def)

lemma add_time_domain_noise_returns:
  assumes "amp_sigma nd = Some a" "corr_time nd = Some r" "kernel nd = Some name"
      and "choose_kernel name a r = Inr f" "st t \<noteq> []"
      and "K = mk_matrix (length (st w)) (length (st w))
                 (\<lambda>i j. f (np_linspace (hd (st t)) (last (st t)) (length (st w)) ! i)
                          (np_linspace (hd (st t)) (last (st t)) (length (st w)) ! j))"
      and "smp (np_zeros (length (st w))) K = Inr z" "length z = length (st w)"
  shows "add_time_domain_noise smp st w t nd = Inr (st(w := map2 (+) (st w) z), w, K)"
  using assms
  by (simp add: add_time_domain_noise_def Let_def fill_K_bound np_iadd_same_length)

lemma add_time_domain_noise_Inr:
  assumes "add_time_domain_noise smp st w t nd = Inr (st', r, K)"
  shows "r = w \<and> (\<exists>z w'. smp (np_zeros (length (st w))) K = Inr z
           \<and> np_iadd (st w) z = Inr w' \<and> st' = st(w := w'))"
  using assms
  by (auto simp: add_time_domain_noise_def Let_def
           split: option.splits sum.splits if_splits)

lemma map2_add_changes:
  assumes "length z = length w" "\<exists>x\<in>set z. x \<noteq> (0::real)"
  shows "map2 (+) w z \<noteq> w"
proof
  assume eq: "map2 (+) w z = w"
  from assms(2) obtain i where i: "i < length z" "z ! i \<noteq> 0"
    by (auto simp: in_set_conv_nth)
  then have "map2 (+) w z ! i = w ! i + z ! i"
    using assms(1) by simp
  with eq i show False by simp
qed

text \<open>
  Claim C9. Whenever \<open>add_time_domain_noise\<close> returns, the reference it returns for the
  noisy waveform is the reference \<open>w\<close> it was given; the store is unchanged at every
  other reference; at \<open>w\<close> it holds the old contents with the sample \<open>z\<close> drawn by the
  sampler added in place (elementwise when \<open>z\<close> has the length of the waveform). If the
  sample has a non-zero entry, the contents at \<open>w\<close> differ from the contents before
  the call: the clean waveform is gone.
\<close>

theorem add_time_domain_noise_updates_its_argument_in_place:
  "add_time_domain_noise smp st w t nd = Inr (st', r, K) \<longrightarrow>
     r = w \<and> (\<forall>a. a \<noteq> w \<longrightarrow> st' a = st a)
     \<and> (\<exists>z. smp (np_zeros (length (st w))) K = Inr z \<and> np_iadd (st w) z = Inr (st' w)
          \<and> (length z = length (st w) \<longrightarrow> st' w = map2 (+) (st w) z)
          \<and> (length z = length (st w) \<and> (\<exists>x\<in>set z. x \<noteq> 0) \<longrightarrow> st' w \<noteq> st w))"
proof
  assume "add_time_domain_noise smp st w t nd = Inr (st', r, K)"
  from add_time_domain_noise_Inr [OF this] obtain z w' where
    r: "r = w" and z: "smp (np_zeros (length (st w))) K = Inr z"
    and w': "np_iadd (st w) z = Inr w'" and st': "st' = st(w := w')"
    by blast
  have same: "length z = length (st w) \<longrightarrow> st' w = map2 (+) (st w) z"
    using w' st' by (auto simp: np_iadd_same_length)
  have changed: "length z = length (st w) \<and> (\<exists>x\<in>set z. x \<noteq> 0) \<longrightarrow> st' w \<noteq> st w"
    using same map2_add_changes [of z "st w"] by auto
  have frame: "\<forall>a. a \<noteq> w \<longrightarrow> st' a = st a"
    using st' by simp
  have "np_iadd (st w) z = Inr (st' w)"
    using w' st' by simp
  with r z same changed frame
  show "r = w \<and> (\<forall>a. a \<noteq> w \<longrightarrow> st' a = st a)
     \<and> (\<exists>z. smp (np_zeros (length (st w))) K = Inr z \<and> np_iadd (st w) z = Inr (st' w)
          \<and> (length z = length (st w) \<longrightarrow> st' w = map2 (+) (st w) z)
          \<and> (length z = length (st w) \<and> (\<exists>x\<in>set z. x \<noteq> 0) \<longrightarrow> st' w \<noteq> st w))"
    by blast
qed

theorem add_time_domain_noise_updates_its_argument_in_place_witness:
  "\<exists>K. add_time_domain_noise (shift_sampler 3) demo_store wdata_f_ref time_f_ref
          (demo_noise ''sqExp'')
        = Inr (demo_store (wdata_f_ref := [8, 10]), wdata_f_ref, K)
      \<and> shift_sampler 3 (np_zeros 2) K = Inr [3, 3]
      \<and> demo_store wdata_f_ref = [5, 7]
      \<and> (demo_store (wdata_f_ref := [8, 10])) wdata_f_ref = map2 (+) [5, 7] [3, 3]
      \<and> (demo_store (wdata_f_ref := [8, 10])) wdata_f_ref \<noteq> demo_store wdata_f_ref
      \<and> (demo_store (wdata_f_ref := [8, 10])) time_f_ref = demo_store time_f_ref"
proof -
  let ?w = "wdata_f_ref" and ?t = "time_f_ref"
  let ?K = "mk_matrix (length (demo_store ?w)) (length (demo_store ?w))
              (\<lambda>i j. sqExp
                 (np_linspace (hd (demo_store ?t)) (last (demo_store ?t))
                    (length (demo_store ?w)) ! i)
                 (np_linspace (hd (demo_store ?t)) (last (demo_store ?t))
                    (length (demo_store ?w)) ! j) 1 1)"
  have vals: "demo_store ?w = [5, 7]" "demo_store ?t = [0, 1]" "?t \<noteq> ?w"
    by (simp_all add: demo_store_def time_f_ref_def wdata_f_ref_def)
  have smp: "shift_sampler 3 (np_zeros (length (demo_store ?w))) ?K = Inr [3, 3]"
    by (simp add: shift_sampler_def np_zeros_def vals)
  have run: "add_time_domain_noise (shift_sampler 3) demo_store ?w ?t (demo_noise ''sqExp'')
               = Inr (demo_store (?w := map2 (+) (demo_store ?w) [3, 3]), ?w, ?K)"
    by (rule add_time_domain_noise_returns [where a = 1 and r = 1 and name = "''sqExp''"
          and f = "\<lambda>x xp. sqExp x xp 1 1" and smp = "shift_sampler 3" and st = demo_store
          and w = ?w and t = ?t and nd = "demo_noise ''sqExp''" and K = ?K and z = "[3, 3]",
          OF _ _ _ _ _ refl smp])
       (simp_all add: choose_kernel_def demo_noise_def vals)
  from add_time_domain_noise_updates_its_argument_in_place
         [of "shift_sampler 3" demo_store ?w ?t "demo_noise ''sqExp''"
             "demo_store (?w := map2 (+) (demo_store ?w) [3, 3])" ?w ?K] run
  have changed: "(demo_store (?w := map2 (+) (demo_store ?w) [3, 3])) ?w \<noteq> demo_store ?w"
    using smp by (auto simp: vals)
  have sum: "map2 (+) (demo_store ?w) [3, 3] = [8, 10]"
    by (simp add: vals)
  from run smp changed vals show ?thesis
    unfolding sum by (intro exI [of _ ?K]) (simp add: shift_sampler_def np_zeros_def numeral_2_eq_2)
qed

subsection \<open>Kernel names the injector cannot use\<close>

lemma choose_kernel_unknown:
  "name \<notin> {''sqExp'', ''matern0'', ''matern1'', ''matern2'', ''periodic''} \<Longrightarrow>
     choose_kernel name a r = Inl UnboundLocalError"
  by (simp add: choose_kernel_def)

lemma choose_kernel_periodic: "choose_kernel ''periodic'' a r = Inl TypeError"
  by (simp add: choose_kernel_def)

lemma add_time_domain_noise_kernel_raises:
  assumes "kernel nd = Some name" "choose_kernel name a r = Inl e"
      and "amp_sigma nd = Some a" "corr_time nd = Some r" "st t \<noteq> []" "st w \<noteq> []"
  shows "add_time_domain_noise smp st w t nd = Inl e"
  using assms by (simp add: add_time_domain_noise_def Let_def fill_K_raises)

lemma add_time_domain_noise_fails:
  assumes "kernel nd = Some name" "\<And>a r. \<exists>e. choose_kernel name a r = Inl e"
      and "st w \<noteq> [] \<or> st t = []"
  shows "\<exists>e. add_time_domain_noise smp st w t nd = Inl e"
proof (cases "amp_sigma nd")
  case None
  then show ?thesis by (simp add: add_time_domain_noise_def)
next
  case (Some a)
  note a = this
  show ?thesis
  proof (cases "corr_time nd")
    case None
    with a show ?thesis by (simp add: add_time_domain_noise_def)
  next
    case (Some r)
    note r = this
    show ?thesis
    proof (cases "st t = []")
      case True
      with a r assms(1) show ?thesis
        by (simp add: add_time_domain_noise_def Let_def)
    next
      case False
      with assms(3) have w: "st w \<noteq> []" by simp
      from assms(2) obtain e where "choose_kernel name a r = Inl e" by blast
      from add_time_domain_noise_kernel_raises [OF assms(1) this a r False w]
      show ?thesis by blast
    qed
  qed
qed

lemma rfcalc_store:
  "((\<lambda>r. []) (time_f_ref := tf, wdata_f_ref := wd)) time_f_ref = tf"
  "((\<lambda>r. []) (time_f_ref := tf, wdata_f_ref := wd)) wdata_f_ref = wd"
  by (simp_all add: time_f_ref_def wdata_f_ref_def)

lemma rfcalc_with_noise:
  "noise args = Some nd \<Longrightarrow>
     rfcalc lib smp model args =
       (let out = native_call lib model args;
            time_f = map (fst out) [0..<ndatar args];
            wdata_f = map (snd out) [0..<ndatar args]
        in case add_time_domain_noise smp
                  ((\<lambda>r. []) (time_f_ref := time_f, wdata_f_ref := wdata_f))
                  wdata_f_ref time_f_ref nd of
             Inl e \<Rightarrow> Inl e
           | Inr (st', wdata_f', Cd) \<Rightarrow> Inr (RFTriple (st' time_f_ref) (st' wdata_f') Cd))"
  by (simp add: rfcalc_def Let_def)

lemma rfcalc_fails_with_injector:
  assumes "noise args = Some nd" "kernel nd = Some name"
      and "\<And>a r. \<exists>e. choose_kernel name a r = Inl e"
  shows "\<exists>e. rfcalc lib smp model args = Inl e"
proof -
  let ?out = "native_call lib model args"
  let ?st = "(\<lambda>r. []) (time_f_ref := map (fst ?out) [0..<ndatar args],
                          wdata_f_ref := map (snd ?out) [0..<ndatar args])"
  have "?st wdata_f_ref \<noteq> [] \<or> ?st time_f_ref = []"
    by (cases "ndatar args = 0") (simp_all add: rfcalc_store)
  from add_time_domain_noise_fails [OF assms(2,3) this]
  obtain e where "add_time_domain_noise smp ?st wdata_f_ref time_f_ref nd = Inl e"
    by blast
  then have "rfcalc lib smp model args = Inl e"
    by (simp add: rfcalc_with_noise [OF assms(1)] Let_def)
  then show ?thesis by blast
qed

lemma refs_distinct: "time_f_ref \<noteq> wdata_f_ref"
  by (simp add: time_f_ref_def wdata_f_ref_def)

lemma add_time_domain_noise_empty_waveform:
  assumes "amp_sigma nd = Some a" "corr_time nd = Some r" "kernel nd = Some name"
      and "st t \<noteq> []" "st w = []"
  shows "add_time_domain_noise smp st w t nd =
           (case smp [] empty_matrix of
              Inl e \<Rightarrow> Inl e
            | Inr z \<Rightarrow> (case np_iadd [] z of
                          Inl e \<Rightarrow> Inl e
                        | Inr w' \<Rightarrow> Inr (st(w := w'), w, empty_matrix)))"
  using assms
  by (auto simp add: add_time_domain_noise_def Let_def fill_K_def np_zeros_def empty_matrix_def
        split: sum.splits)

lemma rfcalc_kernel_raises:
  assumes "noise args = Some nd" "kernel nd = Some name" "choose_kernel name a r = Inl e"
      and "amp_sigma nd = Some a" "corr_time nd = Some r" "ndatar args \<noteq> 0"
  shows "rfcalc lib smp model args = Inl e"
proof -
  let ?out = "native_call lib model args"
  let ?st = "(\<lambda>r. []) (time_f_ref := map (fst ?out) [0..<ndatar args],
                          wdata_f_ref := map (snd ?out) [0..<ndatar args])"
  have ne: "?st time_f_ref \<noteq> []" "?st wdata_f_ref \<noteq> []"
    using assms(6) by (simp_all add: refs_distinct)
  have "add_time_domain_noise smp ?st wdata_f_ref time_f_ref nd = Inl e"
    by (rule add_time_domain_noise_kernel_raises
          [where st = ?st and w = wdata_f_ref and t = time_f_ref and name = name and a = a
             and r = r and e = e and nd = nd and smp = smp,
           OF assms(2,3,4,5) ne])
  then show ?thesis
    by (simp add: rfcalc_with_noise [OF assms(1)] Let_def)
qed

lemma unknown_kernel_examples:
  "add_time_domain_noise (shift_sampler 3) demo_store wdata_f_ref time_f_ref
     (demo_noise ''gauss'') = Inl UnboundLocalError"
  "add_time_domain_noise (shift_sampler 3) empty_wave_store wdata_f_ref time_f_ref
     (demo_noise ''gauss'') = Inr (empty_wave_store, wdata_f_ref, empty_matrix)"
proof -
  have keys: "kernel (demo_noise ''gauss'') = Some ''gauss''"
    "amp_sigma (demo_noise ''gauss'') = Some 1" "corr_time (demo_noise ''gauss'') = Some 1"
    by (simp_all add: demo_noise_def)
  have ck: "choose_kernel ''gauss'' 1 1 = Inl UnboundLocalError"
    by (simp add: choose_kernel_def)
  have full: "demo_store time_f_ref \<noteq> []" "demo_store wdata_f_ref \<noteq> []"
    by (simp_all add: demo_store_def refs_distinct)
  show "add_time_domain_noise (shift_sampler 3) demo_store wdata_f_ref time_f_ref
     (demo_noise ''gauss'') = Inl UnboundLocalError"
    by (rule add_time_domain_noise_kernel_raises
          [where st = demo_store and w = wdata_f_ref and t = time_f_ref
             and name = "''gauss''" and a = 1 and r = 1 and e = UnboundLocalError
             and nd = "demo_noise ''gauss''" and smp = "shift_sampler 3",
           OF keys(1) ck keys(2,3) full])
  have empty: "empty_wave_store time_f_ref \<noteq> []" "empty_wave_store wdata_f_ref = []"
    using refs_distinct by (simp_all add: empty_wave_store_def)
  have same: "empty_wave_store (wdata_f_ref := []) = empty_wave_store"
    using empty(2) by (simp add: fun_eq_iff)
  have "add_time_domain_noise (shift_sampler 3) empty_wave_store wdata_f_ref time_f_ref
     (demo_noise ''gauss'')
        = Inr (empty_wave_store (wdata_f_ref := []), wdata_f_ref, empty_matrix)"
    by (simp add: add_time_domain_noise_empty_waveform
          [where a = 1 and r = 1 and name = "''gauss''", OF keys(2,3,1) empty]
          shift_sampler_def np_iadd_def)
  then show "add_time_domain_noise (shift_sampler 3) empty_wave_store wdata_f_ref time_f_ref
     (demo_noise ''gauss'') = Inr (empty_wave_store, wdata_f_ref, empty_matrix)"
    by (simp only: same)
qed

text \<open>
  Claim C7, as the code has it. The injector makes no check of the kernel name and
  raises no error of its own. A name that is not one of the five leaves the kernel
  unbound: given the two other keys and a non-empty time axis, the call raises
  \<open>UnboundLocalError\<close> for every waveform with at least one sample, when the kernel is
  first evaluated; for an empty waveform the kernel is never evaluated, the name raises
  nothing, and the call ends as the sampler and the in-place addition end. \<open>rfcalc\<close>
  lets the exception through: with such a dictionary it never returns, and with the two
  other keys and at least one sample it raises \<open>UnboundLocalError\<close>. The kernel
  \<open>periodic\<close> is left out of this statement.
\<close>

theorem unknown_kernel_name_is_not_checked:
  "kernel nd = Some name
     \<and> name \<notin> {''sqExp'', ''matern0'', ''matern1'', ''matern2'', ''periodic''} \<longrightarrow>
     (amp_sigma nd \<noteq> None \<and> corr_time nd \<noteq> None \<and> st t \<noteq> [] \<and> st w \<noteq> [] \<longrightarrow>
        add_time_domain_noise smp st w t nd = Inl UnboundLocalError)
     \<and> (amp_sigma nd \<noteq> None \<and> corr_time nd \<noteq> None \<and> st t \<noteq> [] \<and> st w = [] \<longrightarrow>
          add_time_domain_noise smp st w t nd =
            (case smp [] empty_matrix of
               Inl e \<Rightarrow> Inl e
             | Inr z \<Rightarrow> (case np_iadd [] z of
                           Inl e \<Rightarrow> Inl e
                         | Inr w' \<Rightarrow> Inr (st(w := w'), w, empty_matrix))))
     \<and> (noise args = Some nd \<longrightarrow>
          (\<exists>e. rfcalc lib smp model args = Inl e)
          \<and> (amp_sigma nd \<noteq> None \<and> corr_time nd \<noteq> None \<and> ndatar args \<noteq> 0 \<longrightarrow>
               rfcalc lib smp model args = Inl UnboundLocalError))"
proof (intro impI)
  assume h: "kernel nd = Some name
     \<and> name \<notin> {''sqExp'', ''matern0'', ''matern1'', ''matern2'', ''periodic''}"
  then have k: "kernel nd = Some name" by simp
  have ck: "choose_kernel name a r = Inl UnboundLocalError" for a r
    using h choose_kernel_unknown [of name a r] by simp
  then have ex: "\<exists>e. choose_kernel name a r = Inl e" for a r
    by blast
  have A: "amp_sigma nd \<noteq> None \<and> corr_time nd \<noteq> None \<and> st t \<noteq> [] \<and> st w \<noteq> [] \<longrightarrow>
        add_time_domain_noise smp st w t nd = Inl UnboundLocalError"
    using add_time_domain_noise_kernel_raises [OF k ck] by auto
  have B: "amp_sigma nd \<noteq> None \<and> corr_time nd \<noteq> None \<and> st t \<noteq> [] \<and> st w = [] \<longrightarrow>
          add_time_domain_noise smp st w t nd =
            (case smp [] empty_matrix of
               Inl e \<Rightarrow> Inl e
             | Inr z \<Rightarrow> (case np_iadd [] z of
                           Inl e \<Rightarrow> Inl e
                         | Inr w' \<Rightarrow> Inr (st(w := w'), w, empty_matrix)))"
    using add_time_domain_noise_empty_waveform [OF _ _ k, of _ _ st t w smp] by auto
  have C: "noise args = Some nd \<longrightarrow>
          (\<exists>e. rfcalc lib smp model args = Inl e)
          \<and> (amp_sigma nd \<noteq> None \<and> corr_time nd \<noteq> None \<and> ndatar args \<noteq> 0 \<longrightarrow>
               rfcalc lib smp model args = Inl UnboundLocalError)"
    using rfcalc_fails_with_injector [OF _ k ex, of args lib smp model]
      rfcalc_kernel_raises [OF _ k ck, of args _ _ lib smp model]
    by auto
  from A B C
  show "(amp_sigma nd \<noteq> None \<and> corr_time nd \<noteq> None \<and> st t \<noteq> [] \<and> st w \<noteq> [] \<longrightarrow>
        add_time_domain_noise smp st w t nd = Inl UnboundLocalError)
     \<and> (amp_sigma nd \<noteq> None \<and> corr_time nd \<noteq> None \<and> st t \<noteq> [] \<and> st w = [] \<longrightarrow>
          add_time_domain_noise smp st w t nd =
            (case smp [] empty_matrix of
               Inl e \<Rightarrow> Inl e
             | Inr z \<Rightarrow> (case np_iadd [] z of
                           Inl e \<Rightarrow> Inl e
                         | Inr w' \<Rightarrow> Inr (st(w := w'), w, empty_matrix))))
     \<and> (noise args = Some nd \<longrightarrow>
          (\<exists>e. rfcalc lib smp model args = Inl e)
          \<and> (amp_sigma nd \<noteq> None \<and> corr_time nd \<noteq> None \<and> ndatar args \<noteq> 0 \<longrightarrow>
               rfcalc lib smp model args = Inl UnboundLocalError))"
    by (intro conjI) assumption+
qed

theorem unknown_kernel_name_is_not_checked_witness:
  "''gauss'' \<notin> {''sqExp'', ''matern0'', ''matern1'', ''matern2'', ''periodic''}
   \<and> kernel (demo_noise ''gauss'') = Some ''gauss''
   \<and> amp_sigma (demo_noise ''gauss'') \<noteq> None \<and> corr_time (demo_noise ''gauss'') \<noteq> None
   \<and> demo_store time_f_ref \<noteq> [] \<and> demo_store wdata_f_ref \<noteq> []
   \<and> empty_wave_store time_f_ref \<noteq> [] \<and> empty_wave_store wdata_f_ref = []
   \<and> ndatar (rf_defaults \<lparr>mtype := 2, noise := Some (demo_noise ''gauss'')\<rparr>) \<noteq> 0
   \<and> add_time_domain_noise (shift_sampler 3) demo_store wdata_f_ref time_f_ref
        (demo_noise ''gauss'') = Inl UnboundLocalError
   \<and> add_time_domain_noise (shift_sampler 3) empty_wave_store wdata_f_ref time_f_ref
        (demo_noise ''gauss'')
       = (case shift_sampler 3 [] empty_matrix of
            Inl e \<Rightarrow> Inl e
          | Inr z \<Rightarrow> (case np_iadd [] z of
                        Inl e \<Rightarrow> Inl e
                      | Inr w' \<Rightarrow> Inr (empty_wave_store (wdata_f_ref := w'), wdata_f_ref,
                                         empty_matrix)))
   \<and> rfcalc (quiet_lib []) (shift_sampler 3) velmod_depth
        (rf_defaults \<lparr>mtype := 2, noise := Some (demo_noise ''gauss'')\<rparr>)
       = Inl UnboundLocalError"
proof -
  have full: "demo_store time_f_ref \<noteq> []" "demo_store wdata_f_ref \<noteq> []"
    by (simp_all add: demo_store_def refs_distinct)
  have empty: "empty_wave_store time_f_ref \<noteq> []" "empty_wave_store wdata_f_ref = []"
    using refs_distinct by (simp_all add: empty_wave_store_def)
  have n: "ndatar (rf_defaults \<lparr>mtype := 2, noise := Some (demo_noise ''gauss'')\<rparr>) \<noteq> 0"
    by (simp add: rf_defaults_def)
  note a = unknown_kernel_name_is_not_checked
    [where nd = "demo_noise ''gauss''" and name = "''gauss''" and st = demo_store
       and w = wdata_f_ref and t = time_f_ref and smp = "shift_sampler 3"
       and args = "rf_defaults \<lparr>mtype := 2, noise := Some (demo_noise ''gauss'')\<rparr>"
       and lib = "quiet_lib []" and model = velmod_depth]
  note b = unknown_kernel_name_is_not_checked
    [where nd = "demo_noise ''gauss''" and name = "''gauss''" and st = empty_wave_store
       and w = wdata_f_ref and t = time_f_ref and smp = "shift_sampler 3"]
  from a b full empty n show ?thesis
    by (simp add: demo_noise_def)
qed

text \<open>
  Against the claim as it was stated: for the name \<open>gauss\<close> and a waveform of two samples
  the exception is Python's \<open>UnboundLocalError\<close>, raised by the use of the unbound
  kernel and not by a check of the configuration; and for an empty waveform, with a
  sampler that returns the empty sample, the call returns.
\<close>

theorem unknown_kernel_raises_UnboundLocalError_or_nothing:
  "add_time_domain_noise (shift_sampler 3) demo_store wdata_f_ref time_f_ref
     (demo_noise ''gauss'') = Inl UnboundLocalError
   \<and> add_time_domain_noise (shift_sampler 3) empty_wave_store wdata_f_ref time_f_ref
       (demo_noise ''gauss'') = Inr (empty_wave_store, wdata_f_ref, empty_matrix)"
  using unknown_kernel_examples by (rule conjI)

subsection \<open>What \<open>rfcalc\<close> returns\<close>

lemma rfcalc_without_noise:
  "noise args = None \<Longrightarrow>
     rfcalc lib smp model args =
       Inr (RFPair (map (fst (native_call lib model args)) [0..<ndatar args])
                   (map (snd (native_call lib model args)) [0..<ndatar args]))"
  by (simp add: rfcalc_def Let_def)

lemma rfcalc_Inr_with_noise:
  assumes "noise args = Some nd" "rfcalc lib smp model args = Inr res"
  shows "\<exists>st' Cd.
           add_time_domain_noise smp
              ((\<lambda>r. []) (time_f_ref := map (fst (native_call lib model args)) [0..<ndatar args],
                           wdata_f_ref := map (snd (native_call lib model args)) [0..<ndatar args]))
              wdata_f_ref time_f_ref nd = Inr (st', wdata_f_ref, Cd)
           \<and> res = RFTriple (map (fst (native_call lib model args)) [0..<ndatar args])
                             (st' wdata_f_ref) Cd"
proof -
  let ?tf = "map (fst (native_call lib model args)) [0..<ndatar args]"
  let ?wd = "map (snd (native_call lib model args)) [0..<ndatar args]"
  let ?st = "(\<lambda>r. []) (time_f_ref := ?tf, wdata_f_ref := ?wd)"
  obtain st' r Cd where
    run: "add_time_domain_noise smp ?st wdata_f_ref time_f_ref nd = Inr (st', r, Cd)"
    and res: "res = RFTriple (st' time_f_ref) (st' r) Cd"
    using assms
    by (cases "add_time_domain_noise smp ?st wdata_f_ref time_f_ref nd")
       (auto simp: rfcalc_with_noise Let_def)
  from add_time_domain_noise_Inr [OF run] obtain w' where
    r: "r = wdata_f_ref" and st': "st' = ?st (wdata_f_ref := w')"
    by blast
  have fr: "st' time_f_ref = ?tf"
    unfolding st' by (simp add: refs_distinct)
  from run res show ?thesis
    unfolding r fr by blast
qed

lemma rfcalc_returns_triple:
  assumes "noise args = Some nd"
      and "amp_sigma nd = Some a" "corr_time nd = Some r" "kernel nd = Some name"
      and "choose_kernel name a r = Inr f" "ndatar args \<noteq> 0"
      and "tf = map (fst (native_call lib model args)) [0..<ndatar args]"
      and "wd = map (snd (native_call lib model args)) [0..<ndatar args]"
      and "K = mk_matrix (ndatar args) (ndatar args)
                 (\<lambda>i j. f (np_linspace (hd tf) (last tf) (ndatar args) ! i)
                          (np_linspace (hd tf) (last tf) (ndatar args) ! j))"
      and "smp (np_zeros (ndatar args)) K = Inr z" "length z = ndatar args"
  shows "rfcalc lib smp model args = Inr (RFTriple tf (map2 (+) wd z) K)"
proof -
  let ?st = "(\<lambda>r. []) (time_f_ref := tf, wdata_f_ref := wd)"
  have st: "?st time_f_ref = tf" "?st wdata_f_ref = wd"
    by (simp_all add: refs_distinct)
  have len: "length wd = ndatar args" "tf \<noteq> []"
    using assms(6-8) by simp_all
  have ne: "?st time_f_ref \<noteq> []"
    unfolding st by (rule len(2))
  have Keq: "K = mk_matrix (length (?st wdata_f_ref)) (length (?st wdata_f_ref))
                 (\<lambda>i j. f (np_linspace (hd (?st time_f_ref)) (last (?st time_f_ref))
                             (length (?st wdata_f_ref)) ! i)
                          (np_linspace (hd (?st time_f_ref)) (last (?st time_f_ref))
                             (length (?st wdata_f_ref)) ! j))"
    unfolding st len(1) by (rule assms(9))
  have smpz: "smp (np_zeros (length (?st wdata_f_ref))) K = Inr z"
    unfolding st len(1) by (rule assms(10))
  have lz: "length z = length (?st wdata_f_ref)"
    unfolding st len(1) by (rule assms(11))
  have run: "add_time_domain_noise smp ?st wdata_f_ref time_f_ref nd
          = Inr (?st (wdata_f_ref := map2 (+) (?st wdata_f_ref) z), wdata_f_ref, K)"
    by (rule add_time_domain_noise_returns
          [where st = ?st and w = wdata_f_ref and t = time_f_ref and f = f and K = K
             and z = z and smp = smp and nd = nd and a = a and r = r and name = name,
           OF assms(2-5) ne Keq smpz lz])
  have "rfcalc lib smp model args =
          (case add_time_domain_noise smp ?st wdata_f_ref time_f_ref nd of
             Inl e \<Rightarrow> Inl e
           | Inr (st', wdata_f', Cd) \<Rightarrow> Inr (RFTriple (st' time_f_ref) (st' wdata_f') Cd))"
    unfolding assms(7,8) by (simp add: rfcalc_with_noise [OF assms(1)] Let_def)
  also have "\<dots> = Inr (RFTriple tf (map2 (+) wd z) K)"
    unfolding run by (simp add: refs_distinct)
  finally show ?thesis .
qed

text \<open>
  The calls of \<open>rfcalc\<close> that return. Without a noise dictionary \<open>rfcalc\<close> returns the
  pair of the time axis and the waveform that the native routine wrote. With a noise
  dictionary it never returns a pair: whatever it returns is the triple of that time
  axis, the waveform buffer after \<open>add_time_domain_noise\<close> ran on it, and the covariance
  matrix the injector built; and for a dictionary with the three keys, a non-zero
  correlation time and one of the four usable kernels, at least one sample, and a
  sampler that yields \<open>z\<close>, it returns the time axis, the clean waveform plus \<open>z\<close>, and
  the matrix of the kernel over the time points.
\<close>

lemma rfcalc_returns_pair_without_and_triple_with_noise:
  "(noise args = None \<longrightarrow>
      rfcalc lib smp model args =
        Inr (RFPair (map (fst (native_call lib model args)) [0..<ndatar args])
                    (map (snd (native_call lib model args)) [0..<ndatar args])))
   \<and> (noise args = Some nd \<and> rfcalc lib smp model args = Inr res \<longrightarrow>
        (\<exists>st' Cd.
           add_time_domain_noise smp
              ((\<lambda>r. []) (time_f_ref := map (fst (native_call lib model args)) [0..<ndatar args],
                           wdata_f_ref := map (snd (native_call lib model args)) [0..<ndatar args]))
              wdata_f_ref time_f_ref nd = Inr (st', wdata_f_ref, Cd)
           \<and> res = RFTriple (map (fst (native_call lib model args)) [0..<ndatar args])
                             (st' wdata_f_ref) Cd))
   \<and> (noise args = Some nd
        \<and> amp_sigma nd = Some a \<and> corr_time nd = Some r \<and> r \<noteq> 0
        \<and> kernel nd = Some name
        \<and> choose_kernel name a r = Inr f \<and> ndatar args \<noteq> 0
        \<and> tf = map (fst (native_call lib model args)) [0..<ndatar args]
        \<and> wd = map (snd (native_call lib model args)) [0..<ndatar args]
        \<and> K = mk_matrix (ndatar args) (ndatar args)
                 (\<lambda>i j. f (np_linspace (hd tf) (last tf) (ndatar args) ! i)
                          (np_linspace (hd tf) (last tf) (ndatar args) ! j))
        \<and> smp (np_zeros (ndatar args)) K = Inr z \<and> length z = ndatar args \<longrightarrow>
        rfcalc lib smp model args = Inr (RFTriple tf (map2 (+) wd z) K))"
proof -
  have A: "noise args = None \<longrightarrow>
      rfcalc lib smp model args =
        Inr (RFPair (map (fst (native_call lib model args)) [0..<ndatar args])
                    (map (snd (native_call lib model args)) [0..<ndatar args]))"
    by (simp add: rfcalc_without_noise)
  have B: "noise args = Some nd \<and> rfcalc lib smp model args = Inr res \<longrightarrow>
        (\<exists>st' Cd.
           add_time_domain_noise smp
              ((\<lambda>r. []) (time_f_ref := map (fst (native_call lib model args)) [0..<ndatar args],
                           wdata_f_ref := map (snd (native_call lib model args)) [0..<ndatar args]))
              wdata_f_ref time_f_ref nd = Inr (st', wdata_f_ref, Cd)
           \<and> res = RFTriple (map (fst (native_call lib model args)) [0..<ndatar args])
                             (st' wdata_f_ref) Cd)"
    using rfcalc_Inr_with_noise [of args nd lib smp model res] by blast
  have C: "noise args = Some nd
        \<and> amp_sigma nd = Some a \<and> corr_time nd = Some r \<and> r \<noteq> 0
        \<and> kernel nd = Some name
        \<and> choose_kernel name a r = Inr f \<and> ndatar args \<noteq> 0
        \<and> tf = map (fst (native_call lib model args)) [0..<ndatar args]
        \<and> wd = map (snd (native_call lib model args)) [0..<ndatar args]
        \<and> K = mk_matrix (ndatar args) (ndatar args)
                 (\<lambda>i j. f (np_linspace (hd tf) (last tf) (ndatar args) ! i)
                          (np_linspace (hd tf) (last tf) (ndatar args) ! j))
        \<and> smp (np_zeros (ndatar args)) K = Inr z \<and> length z = ndatar args \<longrightarrow>
        rfcalc lib smp model args = Inr (RFTriple tf (map2 (+) wd z) K)"
    using rfcalc_returns_triple [of args nd a r name f tf lib model wd K smp z] by blast
  from A B C show ?thesis
    by (intro conjI) assumption+
qed

lemma quiet_call:
  "sn args = 0 \<Longrightarrow>
     native_call (quiet_lib ml) model args = ((\<lambda>i. real i / fs args), (\<lambda>i. 0))"
  by (simp add: native_call_def quiet_lib_def marshal_def Let_def)

lemma upt_two: "[0..<2] = [0, 1]"
  by (simp add: upt_rec numeral_2_eq_2)

lemma rfcalc_returns_pair_without_and_triple_with_noise_example:
  "noise (rf_defaults \<lparr>ndatar := 2\<rparr>) = None
   \<and> rfcalc (quiet_lib []) (shift_sampler 3) two_layers (rf_defaults \<lparr>ndatar := 2\<rparr>)
       = Inr (RFPair [0, 1 / 25] [0, 0])
   \<and> choose_kernel ''sqExp'' 1 1 = Inr (\<lambda>x xp. sqExp x xp 1 1)
   \<and> (\<exists>K. shift_sampler 3 (np_zeros 2) K = Inr [3, 3]
         \<and> rfcalc (quiet_lib []) (shift_sampler 3) two_layers
              (rf_defaults \<lparr>ndatar := 2, noise := Some (demo_noise ''sqExp'')\<rparr>)
            = Inr (RFTriple [0, 1 / 25] [3, 3] K))"
proof -
  let ?lib = "quiet_lib []"
  let ?a0 = "rf_defaults \<lparr>ndatar := 2\<rparr>"
  let ?a1 = "rf_defaults \<lparr>ndatar := 2, noise := Some (demo_noise ''sqExp'')\<rparr>"
  let ?tf = "map (fst (native_call ?lib two_layers ?a1)) [0..<ndatar ?a1]"
  let ?wd = "map (snd (native_call ?lib two_layers ?a1)) [0..<ndatar ?a1]"
  let ?K = "mk_matrix (ndatar ?a1) (ndatar ?a1)
              (\<lambda>i j. sqExp (np_linspace (hd ?tf) (last ?tf) (ndatar ?a1) ! i)
                            (np_linspace (hd ?tf) (last ?tf) (ndatar ?a1) ! j) 1 1)"
  have n0: "noise ?a0 = None" and n1: "noise ?a1 = Some (demo_noise ''sqExp'')"
    and nd: "ndatar ?a0 = 2" "ndatar ?a1 = 2"
    by (simp_all add: rf_defaults_def)
  have calls: "native_call ?lib two_layers ?a0 = ((\<lambda>i. real i / 25), (\<lambda>i. 0))"
    "native_call ?lib two_layers ?a1 = ((\<lambda>i. real i / 25), (\<lambda>i. 0))"
    by (simp_all add: quiet_call rf_defaults_def)
  have tf: "?tf = [0, 1 / 25]" and wd: "?wd = [0, 0]"
    by (simp_all add: calls nd upt_two)
  have pair: "rfcalc ?lib (shift_sampler 3) two_layers ?a0 = Inr (RFPair [0, 1 / 25] [0, 0])"
    using rfcalc_returns_pair_without_and_triple_with_noise
            [where args = ?a0 and lib = ?lib and smp = "shift_sampler 3" and model = two_layers]
          n0
    by (simp add: calls nd upt_two)
  have ck: "choose_kernel ''sqExp'' 1 1 = Inr (\<lambda>x xp. sqExp x xp 1 1)"
    by (simp add: choose_kernel_def)
  have smp: "shift_sampler 3 (np_zeros (ndatar ?a1)) ?K = Inr [3, 3]"
    by (simp add: shift_sampler_def np_zeros_def nd numeral_2_eq_2)
  have keys: "amp_sigma (demo_noise ''sqExp'') = Some 1" "corr_time (demo_noise ''sqExp'') = Some 1"
    "kernel (demo_noise ''sqExp'') = Some ''sqExp''"
    by (simp_all add: demo_noise_def)
  have "rfcalc ?lib (shift_sampler 3) two_layers ?a1
          = Inr (RFTriple ?tf (map2 (+) ?wd [3, 3]) ?K)"
    using rfcalc_returns_pair_without_and_triple_with_noise
            [where args = ?a1 and lib = ?lib and smp = "shift_sampler 3" and model = two_layers
               and nd = "demo_noise ''sqExp''" and a = 1 and r = 1 and name = "''sqExp''"
               and f = "\<lambda>x xp. sqExp x xp 1 1" and tf = ?tf and wd = ?wd and K = ?K
               and z = "[3, 3]"]
          n1 keys ck smp nd(2)
    by simp
  moreover have "map2 (+) ?wd [3, 3] = [3, 3]"
    unfolding wd by simp
  ultimately have triple: "rfcalc ?lib (shift_sampler 3) two_layers ?a1
          = Inr (RFTriple [0, 1 / 25] [3, 3] ?K)"
    by (simp only: tf)
  have smp2: "shift_sampler 3 (np_zeros 2) ?K = Inr [3, 3]"
    using smp by (simp add: nd)
  from n0 pair ck triple smp2 show ?thesis
    by blast
qed


text \<open>
  Claim C2. With a noise dictionary \<open>rfcalc\<close> is to apply the injector to the clean
  waveform and return the triple. For the kernel \<open>periodic\<close>, which the documentation
  of \<open>rfcalc\<close> lists among the kernels, it does not: \<open>k\<close> is bound to a call of the
  five-parameter \<open>periodic\<close> with four arguments, a \<open>period\<close> entry of the dictionary is
  never read, and for every native library, sampler and model, with the keys
  \<open>amp_sigma\<close> and \<open>corr_time\<close> present and at least one sample, \<open>rfcalc\<close> raises
  \<open>TypeError\<close> and returns nothing.
\<close>

theorem rfcalc_with_periodic_kernel_raises_TypeError:
  "noise args = Some nd \<and> kernel nd = Some ''periodic''
     \<and> amp_sigma nd \<noteq> None \<and> corr_time nd \<noteq> None \<and> ndatar args \<noteq> 0 \<longrightarrow>
     rfcalc lib smp model args = Inl TypeError"
proof
  assume h: "noise args = Some nd \<and> kernel nd = Some ''periodic''
     \<and> amp_sigma nd \<noteq> None \<and> corr_time nd \<noteq> None \<and> ndatar args \<noteq> 0"
  then obtain a r where keys: "amp_sigma nd = Some a" "corr_time nd = Some r"
    by auto
  from h have n: "noise args = Some nd" and k: "kernel nd = Some ''periodic''"
    and s: "ndatar args \<noteq> 0"
    by simp_all
  show "rfcalc lib smp model args = Inl TypeError"
    by (rule rfcalc_kernel_raises [OF n k choose_kernel_periodic keys s])
qed

theorem rfcalc_with_periodic_kernel_raises_TypeError_witness:
  "noise (rf_defaults \<lparr>mtype := 2, noise := Some (demo_noise ''periodic'')\<rparr>)
     = Some (demo_noise ''periodic'')
   \<and> kernel (demo_noise ''periodic'') = Some ''periodic''
   \<and> amp_sigma (demo_noise ''periodic'') \<noteq> None \<and> corr_time (demo_noise ''periodic'') \<noteq> None
   \<and> period (demo_noise ''periodic'' \<lparr>period := Some 2\<rparr>) = Some 2
   \<and> ndatar (rf_defaults \<lparr>mtype := 2, noise := Some (demo_noise ''periodic'')\<rparr>) \<noteq> 0
   \<and> rfcalc (quiet_lib []) (shift_sampler 3) velmod_depth
        (rf_defaults \<lparr>mtype := 2, noise := Some (demo_noise ''periodic'')\<rparr>) = Inl TypeError
   \<and> rfcalc (quiet_lib []) (shift_sampler 3) velmod_depth
        (rf_defaults \<lparr>mtype := 2,
           noise := Some (demo_noise ''periodic'' \<lparr>period := Some 2\<rparr>)\<rparr>) = Inl TypeError"
proof -
  note a = rfcalc_with_periodic_kernel_raises_TypeError
    [where args = "rf_defaults \<lparr>mtype := 2, noise := Some (demo_noise ''periodic'')\<rparr>"
       and nd = "demo_noise ''periodic''" and lib = "quiet_lib []"
       and smp = "shift_sampler 3" and model = velmod_depth]
  note b = rfcalc_with_periodic_kernel_raises_TypeError
    [where args = "rf_defaults \<lparr>mtype := 2,
                     noise := Some (demo_noise ''periodic'' \<lparr>period := Some 2\<rparr>)\<rparr>"
       and nd = "demo_noise ''periodic'' \<lparr>period := Some 2\<rparr>" and lib = "quiet_lib []"
       and smp = "shift_sampler 3" and model = velmod_depth]
  from a b show ?thesis
    by (simp add: demo_noise_def rf_defaults_def)
qed

subsection \<open>Length and time axis of the synthetic waveform\<close>

lemma spec_call_time:
  "sn args = 0 \<Longrightarrow>
     fst (native_call (spec_librf96 amp namp v2m) model args)
       = spec_time_axis (fs args) (time_shift args)"
  by (simp add: native_call_def spec_librf96_def marshal_def Let_def)

lemma spec_quiet_call:
  "sn args = 0 \<Longrightarrow>
     native_call spec_quiet_lib model args
       = (spec_time_axis (fs args) (time_shift args), (\<lambda>i. 0))"
  by (simp add: native_call_def spec_quiet_lib_def spec_librf96_def marshal_def Let_def)

lemma time_axis_values:
  assumes "t = map (spec_time_axis 25 ts) [0..<626]"
  shows "length t = 626" "hd t = - ts" "last t = 625 / 25 - ts"
    "\<forall>i<626. t ! i = real i / 25 - ts \<and> - ts \<le> t ! i \<and> t ! i \<le> 625 / 25 - ts"
proof -
  show len: "length t = 626"
    by (simp add: assms)
  have nth: "t ! i = real i / 25 - ts" if "i < 626" for i
    using that by (simp add: assms spec_time_axis_def)
  have "t \<noteq> []"
    using len by auto
  then have "hd t = t ! 0" "last t = t ! 625"
    using len by (simp_all add: hd_conv_nth last_conv_nth)
  then show "hd t = - ts" "last t = 625 / 25 - ts"
    by (simp_all add: nth)
  show "\<forall>i<626. t ! i = real i / 25 - ts \<and> - ts \<le> t ! i \<and> t ! i \<le> 625 / 25 - ts"
    by (simp add: nth)
qed

text \<open>
  Claim C8, as the code and the specification's sampling have it. For every native
  library, a call of \<open>rfcalc\<close> without a noise dictionary returns a time array and an
  amplitude array of \<open>ndatar\<close> entries each. For the 13-layer interface-depth reference
  model with \<open>ndatar = 626\<close> and \<open>fs = 25\<close>, and a native library that writes the time axis
  the specification describes, both arrays have 626 entries and the time axis runs in
  steps of \<open>1/25\<close> from \<open>- time_shift\<close> to \<open>625/25 - time_shift\<close>: it starts at 0 only for
  a time shift of 0, and for the default time shift of 5 it runs from -5 to 20.
\<close>

theorem reference_waveform_has_626_samples_shifted_by_time_shift:
  "(noise args = None \<longrightarrow>
      (\<exists>t w. rfcalc lib smp model args = Inr (RFPair t w)
         \<and> length t = ndatar args \<and> length w = ndatar args))
   \<and> length velmod_depth = 13
   \<and> time_shift rf_defaults = 5
   \<and> (\<exists>t w. rfcalc (spec_librf96 amp namp v2m) smp velmod_depth
               (rf_defaults \<lparr>mtype := 2, fs := 25, ndatar := 626, time_shift := ts\<rparr>)
             = Inr (RFPair t w)
         \<and> length t = 626 \<and> length w = 626 \<and> hd t = - ts \<and> last t = 625 / 25 - ts
         \<and> (\<forall>i<626. t ! i = real i / 25 - ts \<and> - ts \<le> t ! i \<and> t ! i \<le> 625 / 25 - ts)
         \<and> (hd t = 0 \<longleftrightarrow> ts = 0))"
proof -
  let ?lib = "spec_librf96 amp namp v2m"
  let ?args = "rf_defaults \<lparr>mtype := 2, fs := 25, ndatar := 626, time_shift := ts\<rparr>"
  let ?t = "map (fst (native_call ?lib velmod_depth ?args)) [0..<ndatar ?args]"
  let ?w = "map (snd (native_call ?lib velmod_depth ?args)) [0..<ndatar ?args]"
  have A: "noise args = None \<longrightarrow>
      (\<exists>t w. rfcalc lib smp model args = Inr (RFPair t w)
         \<and> length t = ndatar args \<and> length w = ndatar args)"
    by (simp add: rfcalc_without_noise)
  have B: "length velmod_depth = 13" "time_shift rf_defaults = 5"
    by (simp_all add: velmod_depth_def rf_defaults_def)
  have a: "noise ?args = None" "sn ?args = 0" "fs ?args = 25" "ndatar ?args = 626"
    "time_shift ?args = ts"
    by (simp_all add: rf_defaults_def)
  have run: "rfcalc ?lib smp velmod_depth ?args = Inr (RFPair ?t ?w)"
    using a(1) by (rule rfcalc_without_noise)
  have t: "?t = map (spec_time_axis 25 ts) [0..<626]"
    by (simp only: spec_call_time [OF a(2)] a(3,4,5))
  have w: "length ?w = 626"
    by (simp add: a(4))
  note v = time_axis_values [OF t]
  have z: "hd ?t = 0 \<longleftrightarrow> ts = 0"
    using v(2) by auto
  from run w v z
  have C: "\<exists>t w. rfcalc ?lib smp velmod_depth ?args = Inr (RFPair t w)
         \<and> length t = 626 \<and> length w = 626 \<and> hd t = - ts \<and> last t = 625 / 25 - ts
         \<and> (\<forall>i<626. t ! i = real i / 25 - ts \<and> - ts \<le> t ! i \<and> t ! i \<le> 625 / 25 - ts)
         \<and> (hd t = 0 \<longleftrightarrow> ts = 0)"
    by blast
  from A B C show ?thesis
    by (intro conjI) assumption+
qed

theorem reference_waveform_has_626_samples_shifted_by_time_shift_witness:
  "noise (rf_defaults \<lparr>mtype := 2\<rparr>) = None
   \<and> ndatar (rf_defaults \<lparr>mtype := 2\<rparr>) = 626
   \<and> rf_defaults \<lparr>mtype := 2, fs := 25, ndatar := 626, time_shift := 5\<rparr>
       = rf_defaults \<lparr>mtype := 2\<rparr>
   \<and> (\<exists>t w. rfcalc (quiet_lib []) (shift_sampler 0) velmod_depth (rf_defaults \<lparr>mtype := 2\<rparr>)
             = Inr (RFPair t w)
         \<and> length t = ndatar (rf_defaults \<lparr>mtype := 2\<rparr>)
         \<and> length w = ndatar (rf_defaults \<lparr>mtype := 2\<rparr>))
   \<and> (\<exists>t w. rfcalc spec_quiet_lib (shift_sampler 0) velmod_depth (rf_defaults \<lparr>mtype := 2\<rparr>)
             = Inr (RFPair t w)
         \<and> length t = 626 \<and> length w = 626 \<and> hd t = - 5 \<and> last t = 20
         \<and> t ! 125 = 0 \<and> t ! 625 = 20)"
proof -
  have a: "noise (rf_defaults \<lparr>mtype := 2\<rparr>) = None"
    "ndatar (rf_defaults \<lparr>mtype := 2\<rparr>) = 626"
    and same: "rf_defaults \<lparr>mtype := 2, fs := 25, ndatar := 626, time_shift := 5\<rparr>
       = rf_defaults \<lparr>mtype := 2\<rparr>"
    by (simp_all add: rf_defaults_def)
  note inst = reference_waveform_has_626_samples_shifted_by_time_shift
         [where amp = "\<lambda>c i. 0" and namp = "\<lambda>c s sd i. 0" and v2m = "columns_voro2mod []"
            and smp = "shift_sampler 0" and ts = 5 and args = "rf_defaults \<lparr>mtype := 2\<rparr>"
            and lib = "quiet_lib []" and model = velmod_depth]
  from inst a(1)
  have every: "\<exists>t w. rfcalc (quiet_lib []) (shift_sampler 0) velmod_depth
                       (rf_defaults \<lparr>mtype := 2\<rparr>) = Inr (RFPair t w)
         \<and> length t = ndatar (rf_defaults \<lparr>mtype := 2\<rparr>)
         \<and> length w = ndatar (rf_defaults \<lparr>mtype := 2\<rparr>)"
    by blast
  from inst
  obtain t w where
    run: "rfcalc spec_quiet_lib (shift_sampler 0) velmod_depth
               (rf_defaults \<lparr>mtype := 2, fs := 25, ndatar := 626, time_shift := 5\<rparr>)
            = Inr (RFPair t w)"
    and len: "length t = 626" "length w = 626" and ends: "hd t = - 5" "last t = 625 / 25 - 5"
    and nth: "\<forall>i<626. t ! i = real i / 25 - 5 \<and> - 5 \<le> t ! i \<and> t ! i \<le> 625 / 25 - 5"
    unfolding spec_quiet_lib_def by blast
  have "(125::nat) < 626" "(625::nat) < 626"
    by simp_all
  with nth have "t ! 125 = real 125 / 25 - 5" "t ! 625 = real 625 / 25 - 5"
    by blast+
  then have "t ! 125 = 0" "t ! 625 = 20"
    by simp_all
  with same run len ends
  have shifted: "\<exists>t w. rfcalc spec_quiet_lib (shift_sampler 0) velmod_depth
                         (rf_defaults \<lparr>mtype := 2\<rparr>) = Inr (RFPair t w)
         \<and> length t = 626 \<and> length w = 626 \<and> hd t = - 5 \<and> last t = 20
         \<and> t ! 125 = 0 \<and> t ! 625 = 20"
    by auto
  from a same every shifted show ?thesis
    by (intro conjI) assumption+
qed

text \<open>
  Against the claim as it was stated: for the reference model and the default
  arguments, whose time shift is 5, the time axis starts at -5 and ends at 20.
\<close>

theorem reference_time_axis_runs_from_minus_5_to_20:
  "time_shift (rf_defaults \<lparr>mtype := 2, fs := 25, ndatar := 626\<rparr>) = 5
   \<and> rfcalc spec_quiet_lib (shift_sampler 0) velmod_depth
        (rf_defaults \<lparr>mtype := 2, fs := 25, ndatar := 626\<rparr>)
       = Inr (RFPair (map (spec_time_axis 25 5) [0..<626]) (replicate 626 0))
   \<and> hd (map (spec_time_axis 25 5) [0..<626]) = - 5
   \<and> last (map (spec_time_axis 25 5) [0..<626]) = 20
   \<and> hd (map (spec_time_axis 25 5) [0..<626]) \<noteq> 0"
proof -
  let ?args = "rf_defaults \<lparr>mtype := 2, fs := 25, ndatar := 626\<rparr>"
  have a: "noise ?args = None" "sn ?args = 0" "fs ?args = 25" "ndatar ?args = 626"
    "time_shift ?args = 5"
    by (simp_all add: rf_defaults_def)
  have "rfcalc spec_quiet_lib (shift_sampler 0) velmod_depth ?args
          = Inr (RFPair (map (fst (native_call spec_quiet_lib velmod_depth ?args))
                           [0..<ndatar ?args])
                        (map (snd (native_call spec_quiet_lib velmod_depth ?args))
                           [0..<ndatar ?args]))"
    using a(1) by (rule rfcalc_without_noise)
  also have "\<dots> = Inr (RFPair (map (spec_time_axis 25 5) [0..<626]) (replicate 626 0))"
    by (simp add: spec_quiet_call [OF a(2)] a(3,4,5) map_replicate_const)
  finally have run: "rfcalc spec_quiet_lib (shift_sampler 0) velmod_depth ?args
          = Inr (RFPair (map (spec_time_axis 25 5) [0..<626]) (replicate 626 0))" .
  note v = time_axis_values [OF refl, of 5]
  from v(2,3) have ends: "hd (map (spec_time_axis 25 5) [0..<626]) = - 5"
    "last (map (spec_time_axis 25 5) [0..<626]) = 20"
    by simp_all
  from a(5) run ends show ?thesis
    by simp
qed

subsection \<open>Attenuation arguments\<close>

lemma per_layer_scalar: "per_layer (QScalar c) npt = replicate npt c"
  by (simp add: per_layer_def np_ones_def)

lemma per_layer_array: "per_layer (QArray qs) npt = qs"
  by (simp add: per_layer_def)

text \<open>
  Claim C6, as the code has it. The default attenuation entries are the scalars 1450
  and 600. Scalar entries are broadcast: the native routine receives one copy per
  layer. Array entries are handed to the native routine as they are, whatever their
  length, and \<open>rfcalc\<close> does not raise: without a noise dictionary it returns the pair of
  the two buffers.
\<close>

theorem attenuation_scalars_broadcast_and_arrays_passed_unchecked:
  "qmodels rf_defaults = (QScalar 1450, QScalar 600)
   \<and> qa_c (marshal model (args \<lparr>qmodels := (QScalar qa, QScalar qb)\<rparr>))
       = replicate (length model) qa
   \<and> qb_c (marshal model (args \<lparr>qmodels := (QScalar qa, QScalar qb)\<rparr>))
       = replicate (length model) qb
   \<and> qa_c (marshal model (args \<lparr>qmodels := (QArray qas, QArray qbs)\<rparr>)) = qas
   \<and> qb_c (marshal model (args \<lparr>qmodels := (QArray qas, QArray qbs)\<rparr>)) = qbs
   \<and> (noise args = None \<longrightarrow>
        (\<exists>t w. rfcalc lib smp model (args \<lparr>qmodels := (QArray qas, QArray qbs)\<rparr>)
                 = Inr (RFPair t w)
           \<and> length t = ndatar args \<and> length w = ndatar args))"
proof -
  have "noise (args \<lparr>qmodels := (QArray qas, QArray qbs)\<rparr>) = None" if "noise args = None"
    using that by simp
  then have "noise args = None \<longrightarrow>
        (\<exists>t w. rfcalc lib smp model (args \<lparr>qmodels := (QArray qas, QArray qbs)\<rparr>)
                 = Inr (RFPair t w)
           \<and> length t = ndatar args \<and> length w = ndatar args)"
    by (simp add: rfcalc_without_noise)
  then show ?thesis
    by (simp add: rf_defaults_def marshal_def Let_def per_layer_scalar per_layer_array)
qed

theorem attenuation_scalars_broadcast_and_arrays_passed_unchecked_witness:
  "qa_c (marshal velmod_depth (rf_defaults \<lparr>qmodels := (QScalar 1450, QScalar 600)\<rparr>))
       = replicate 13 1450
   \<and> qb_c (marshal velmod_depth (rf_defaults \<lparr>qmodels := (QScalar 1450, QScalar 600)\<rparr>))
       = replicate 13 600
   \<and> qa_c (marshal velmod_depth (rf_defaults \<lparr>qmodels := (QArray [1000, 900], QArray [500])\<rparr>))
       = [1000, 900]
   \<and> noise rf_defaults = None
   \<and> (\<exists>t w. rfcalc (quiet_lib []) (shift_sampler 0) velmod_depth
                 (rf_defaults \<lparr>qmodels := (QArray [1000, 900], QArray [500])\<rparr>)
               = Inr (RFPair t w) \<and> length t = 626 \<and> length w = 626)"
proof -
  have len: "length velmod_depth = 13" and n: "noise rf_defaults = None"
    and nd: "ndatar rf_defaults = 626"
    by (simp_all add: velmod_depth_def rf_defaults_def)
  from attenuation_scalars_broadcast_and_arrays_passed_unchecked
         [where model = velmod_depth and args = rf_defaults and qa = 1450 and qb = 600
            and qas = "[1000, 900]" and qbs = "[500]" and lib = "quiet_lib []"
            and smp = "shift_sampler 0"]
       len n nd
  show ?thesis
    by simp
qed

text \<open>
  Against the claim as it was stated: for the two-layer model, attenuation arrays of
  one entry each do not make \<open>rfcalc\<close> fail.
\<close>

theorem short_attenuation_arrays_are_not_rejected:
  "length [1450 :: real] \<noteq> length two_layers
   \<and> length [600 :: real] \<noteq> length two_layers
   \<and> rfcalc (quiet_lib []) (shift_sampler 0) two_layers
        (rf_defaults \<lparr>ndatar := 2, qmodels := (QArray [1450], QArray [600])\<rparr>)
      = Inr (RFPair [0, 1 / 25] [0, 0])"
proof -
  let ?args = "rf_defaults \<lparr>ndatar := 2, qmodels := (QArray [1450], QArray [600])\<rparr>"
  have a: "noise ?args = None" "sn ?args = 0" "ndatar ?args = 2" "fs ?args = 25"
    by (simp_all add: rf_defaults_def)
  have "rfcalc (quiet_lib []) (shift_sampler 0) two_layers ?args
          = Inr (RFPair (map (fst (native_call (quiet_lib []) two_layers ?args)) [0..<ndatar ?args])
                        (map (snd (native_call (quiet_lib []) two_layers ?args)) [0..<ndatar ?args]))"
    using a(1) by (rule rfcalc_without_noise)
  also have "\<dots> = Inr (RFPair [0, 1 / 25] [0, 0])"
    by (simp add: quiet_call [OF a(2)] a(3,4) upt_two)
  finally show ?thesis
    by (simp add: two_layers_def)
qed

end
